theory Spec2Isabelle
  imports Complex_Main
begin

section \<open>Numbers\<close>

text \<open>
  Every number the program receives is a JSON number of the market-data provider or an
  entry of the user, hence a finite double. A JavaScript \<open>number\<close> is modelled by the
  \<open>real\<close> it denotes. The indicator and pattern stages are modelled with exact sums,
  differences, products and comparisons. The position sizer, the screening filter and the
  two simulated metrics are modelled with every arithmetic operation rounded to the
  nearest double (\<open>fl\<close> below). A result of magnitude \<open>2 ^ 1024\<close> or more is
  \<open>Infinity\<close> in JavaScript and outside the model.
  JavaScript division does not fail on a zero divisor: it yields an infinity or NaN.
  Wherever the divisor of the source can be zero, the quotient is a \<open>jsnum\<close>, computed
  by \<open>jsDiv\<close>; a zero divisor is taken to be \<open>+0\<close>.
\<close>

datatype jsnum = Fin real | PosInf | NegInf | NaN

definition jsDiv :: "real \<Rightarrow> real \<Rightarrow> jsnum" where
  "jsDiv a b =
     (if b \<noteq> 0 then Fin (a / b)
      else if 0 < a then PosInf
      else if a < 0 then NegInf
      else NaN)"

text \<open>\<open>x < y\<close> for a quotient \<open>x\<close> and a finite \<open>y\<close>: every comparison with NaN is false.\<close>

fun jsLess :: "jsnum \<Rightarrow> real \<Rightarrow> bool" where
  "jsLess (Fin x) y = (x < y)"
| "jsLess PosInf y = False"
| "jsLess NegInf y = True"
| "jsLess NaN y = False"

text \<open>\<open>x * y\<close> for a quotient \<open>x\<close> and a finite \<open>y\<close>.\<close>

fun jsTimes :: "jsnum \<Rightarrow> real \<Rightarrow> jsnum" where
  "jsTimes (Fin x) y = Fin (x * y)"
| "jsTimes PosInf y = (if 0 < y then PosInf else if y < 0 then NegInf else NaN)"
| "jsTimes NegInf y = (if 0 < y then NegInf else if y < 0 then PosInf else NaN)"
| "jsTimes NaN y = NaN"

text \<open>
  \<open>Math.max(...xs)\<close> on a non-empty argument list. The source applies it to the highs of
  the first 50 candles of a series longer than 50, and to the highs of a non-empty
  series; the empty list (\<open>-Infinity\<close> in JavaScript) is left out of the model.
\<close>

fun mathMax :: "real list \<Rightarrow> real" where
  "mathMax (x # xs) = fold max xs x"

text \<open>
  Rounding to the nearest double (IEEE 754 binary64, ties to even). \<open>roundEven\<close> is the
  nearest integer, the even one on a tie. \<open>binExp x\<close> is the exponent \<open>e\<close> with
  \<open>2 ^ e \<le> |x| < 2 ^ (e + 1)\<close>, kept between -1022 (the subnormal range) and 1023: it is
  found by halving or doubling \<open>|x|\<close>. The doubles next to \<open>x\<close> are the multiples of
  \<open>2 ^ (e - 52)\<close>, and \<open>fl x\<close> is the nearest of them.
\<close>

definition roundEven :: "real \<Rightarrow> int" where
  "roundEven y =
     (let f = \<lfloor>y\<rfloor>; d = y - real_of_int f
      in if d < 1 / 2 then f
         else if 1 / 2 < d then f + 1
         else if even f then f else f + 1)"

function expUp :: "int \<Rightarrow> real \<Rightarrow> int" where
  "expUp e x = (if x < 2 \<or> 1023 \<le> e then e else expUp (e + 1) (x / 2))"
  by pat_completeness auto
termination
  by (relation "measure (\<lambda>(e, x). nat (1023 - e))") auto

function expDown :: "int \<Rightarrow> real \<Rightarrow> int" where
  "expDown e x = (if 1 \<le> x \<or> e \<le> - 1022 then e else expDown (e - 1) (x * 2))"
  by pat_completeness auto
termination
  by (relation "measure (\<lambda>(e, x). nat (e + 1022))") auto

declare expUp.simps [simp del] expDown.simps [simp del]

definition binExp :: "real \<Rightarrow> int" where
  "binExp x = (if 1 \<le> \<bar>x\<bar> then expUp 0 \<bar>x\<bar> else expDown 0 \<bar>x\<bar>)"

definition fl :: "real \<Rightarrow> real" where
  "fl x = (let u = 2 powi (binExp x - 52) in real_of_int (roundEven (x / u)) * u)"


section \<open>Data model (types.ts and the provider's rows)\<close>

text \<open>
  Field names follow the source. Where one name is a field of several interfaces, or is
  a constant of the library (\<open>open\<close>, \<open>max\<close>, \<open>min\<close>), it carries a prefix or suffix:
  \<open>fm_\<close> for \<open>FinMindData\<close>, \<open>tick_\<close> for \<open>FinMindTick\<close>, \<open>openPx\<close> for \<open>OHLC.open\<close>.
\<close>

datatype signal = BUY | SELL

text \<open>
  The four signal fields of \<open>OHLC\<close> are optional properties: \<open>None\<close> is an absent
  property. \<open>signalType\<close> is \<open>'BUY' | 'SELL' | null\<close> when present: \<open>Some None\<close> is
  \<open>null\<close>. The six averages are \<open>number | null\<close>: \<open>None\<close> is \<open>null\<close>.
\<close>

record OHLC =
  date :: string
  openPx :: real
  high :: real
  low :: real
  close :: real
  volume :: real
  ma5 :: "real option"
  ma10 :: "real option"
  ma20 :: "real option"
  ma50 :: "real option"
  ma200 :: "real option"
  volMa5 :: "real option"
  isPinBar :: "bool option"
  isEngulfing :: "bool option"
  isRSFlip :: "bool option"
  signalType :: "signal option option"

record StockSymbol =
  code :: string
  name :: string
  industry :: string

record StockData = StockSymbol +
  data :: "OHLC list"
  lastClose :: real
  change :: real
  changePercent :: jsnum
  isAbove200MA :: bool
  isVolAbove5MA :: bool
  ADR_Percent :: real
  RS_Score :: real
  yearHigh :: real



record FinMindData =
  fm_date :: string
  fm_stock_id :: string
  Trading_Volume :: real
  Trading_money :: real
  fm_open :: real
  fm_max :: real
  fm_min :: real
  fm_close :: real
  spread :: real
  Trading_turnover :: real

record FinMindTick =
  tick_date :: string
  tick_stock_id :: string
  deal_price :: real
  deal_trading_volume :: real

section \<open>IndicatorEngine: calculateSMA and the indicator loop of fetchMarketData\<close>

text \<open>
  \<open>calculateSMA\<close> is only called with the windows 5, 10, 20, 50 and 200, so the divisor
  \<open>window\<close> is positive.
\<close>

definition calculateSMA :: "real list \<Rightarrow> nat \<Rightarrow> real option" where
  "calculateSMA xs window =
     (if length xs < window then None
      else
        let slice = drop (length xs - window) xs;
            sum = foldl (\<lambda>a b. a + b) 0 slice
        in Some (sum / real window))"

text \<open>
  The body of \<open>rawData.forEach\<close>: the state is the three arrays \<open>prices\<close>, \<open>volumes\<close>
  and \<open>processedData\<close>, each extended by \<open>push\<close>.
\<close>

definition indicatorStep ::
  "FinMindData \<Rightarrow> real list \<times> real list \<times> OHLC list \<Rightarrow> real list \<times> real list \<times> OHLC list"
where
  "indicatorStep d st =
     (case st of (prices, volumes, processedData) \<Rightarrow>
        let prices' = prices @ [fm_close d];
            volumes' = volumes @ [Trading_Volume d]
        in (prices', volumes',
            processedData @
              [\<lparr> date = fm_date d, openPx = fm_open d, high = fm_max d, low = fm_min d,
                 close = fm_close d, volume = Trading_Volume d,
                 ma5 = calculateSMA prices' 5,
                 ma10 = calculateSMA prices' 10,
                 ma20 = calculateSMA prices' 20,
                 ma50 = calculateSMA prices' 50,
                 ma200 = calculateSMA prices' 200,
                 volMa5 = calculateSMA volumes' 5,
                 isPinBar = None, isEngulfing = None, isRSFlip = None,
                 signalType = None \<rparr>]))"

text \<open>The candle pushed by \<open>indicatorStep\<close>, given the extended arrays.\<close>

definition mkCandle :: "FinMindData \<Rightarrow> real list \<Rightarrow> real list \<Rightarrow> OHLC" where
  "mkCandle d prices volumes =
     \<lparr> date = fm_date d, openPx = fm_open d, high = fm_max d, low = fm_min d,
       close = fm_close d, volume = Trading_Volume d,
       ma5 = calculateSMA prices 5, ma10 = calculateSMA prices 10,
       ma20 = calculateSMA prices 20, ma50 = calculateSMA prices 50,
       ma200 = calculateSMA prices 200, volMa5 = calculateSMA volumes 5,
       isPinBar = None, isEngulfing = None, isRSFlip = None, signalType = None \<rparr>"

definition processData :: "FinMindData list \<Rightarrow> OHLC list" where
  "processData rawData = snd (snd (fold indicatorStep rawData ([], [], [])))"

text \<open>The arithmetic mean of \<open>xs\<close> over the positions \<open>i - W + 1\<close> to \<open>i\<close> inclusive.\<close>

definition meanOver :: "real list \<Rightarrow> nat \<Rightarrow> nat \<Rightarrow> real" where
  "meanOver xs W i = (\<Sum>j = i + 1 - W..<i + 1. xs ! j) / real W"

section \<open>SignalDetector: detectPatterns\<close>

text \<open>
  The proximity test \<open>Math.abs(curr.low - keyLevel) / keyLevel < 0.02\<close>. Its divisor
  \<open>keyLevel\<close> is 0 for a series of at most 50 candles.
\<close>

definition nearKeyLevel :: "real \<Rightarrow> OHLC \<Rightarrow> bool" where
  "nearKeyLevel keyLevel c = jsLess (jsDiv \<bar>low c - keyLevel\<bar> keyLevel) 0.02"

text \<open>
  The callback of \<open>data.map((curr, i) => ...)\<close>. For \<open>i \<ge> 1\<close> and \<open>i < length data\<close>
  both \<open>data[i]\<close> and \<open>data[i - 1]\<close> are in range.
\<close>

definition detectAt :: "real \<Rightarrow> OHLC list \<Rightarrow> nat \<Rightarrow> OHLC" where
  "detectAt keyLevel xs i =
     (let curr = xs ! i in
      if i = 0 then curr
      else
        let prev = xs ! (i - 1);
            rng = high curr - low curr;
            body = \<bar>openPx curr - close curr\<bar>;
            upperWick = high curr - max (openPx curr) (close curr);
            lowerWick = min (openPx curr) (close curr) - low curr;
            pinBar = (rng > 0 \<and>
                      lowerWick > rng * 0.6 \<and>
                      body < rng * 0.25 \<and>
                      upperWick < rng * 0.15);
            engulfing = (close prev < openPx prev \<and>
                         close curr > openPx curr \<and>
                         openPx curr < close prev \<and>
                         close curr > openPx prev);
            near = nearKeyLevel keyLevel curr;
            rsFlip = (near \<and> (pinBar \<or> engulfing));
            sig = (if rsFlip \<or> (pinBar \<and> near) \<or> (engulfing \<and> near)
                   then Some BUY else None)
        in curr\<lparr> isPinBar := Some pinBar,
                 isEngulfing := Some engulfing,
                 isRSFlip := Some rsFlip,
                 signalType := Some sig \<rparr>)"

definition keyLevelOf :: "OHLC list \<Rightarrow> real" where
  "keyLevelOf xs = (if length xs > 50 then mathMax (map high (take 50 xs)) else 0)"

definition detectPatterns :: "OHLC list \<Rightarrow> OHLC list" where
  "detectPatterns xs = map (detectAt (keyLevelOf xs) xs) [0..<length xs]"

section \<open>SeriesBuilder: the real-time snapshot step of fetchMarketData\<close>

text \<open>
  The provider is a parameter: what each \<open>axios.get\<close> returns or throws. A thrown value
  is \<open>Inl\<close>. \<open>response.data\<close> of the price request carries \<open>msg\<close> and \<open>data\<close>;
  \<open>tickResponse.data.data\<close> may be absent (\<open>None\<close>).
\<close>

datatype fetchError = FetchError

record PriceResponse =
  resp_msg :: string
  resp_data :: "FinMindData list"

record Provider =
  getPrice :: "string \<Rightarrow> string \<Rightarrow> fetchError + PriceResponse"
  getTick :: "string \<Rightarrow> string \<Rightarrow> fetchError + FinMindTick list option"

text \<open>The requests a symbol's pipeline issues, in order: data set, \<open>data_id\<close>, date.\<close>

datatype request = TaiwanStockPrice string string | TaiwanStockTick string string

text \<open>The body of the \<open>for\<close> loop over the ticks; the state is \<open>(high, low, volume)\<close>.\<close>

definition tickStep :: "FinMindTick \<Rightarrow> real \<times> real \<times> real \<Rightarrow> real \<times> real \<times> real" where
  "tickStep t st =
     (case st of (hi, lo, vol) \<Rightarrow>
        let p = deal_price t;
            hi' = (if p > hi then p else hi);
            lo' = (if p < lo then p else lo)
        in (hi', lo', vol + deal_trading_volume t))"

text \<open>The candle pushed for a non-empty tick list.\<close>

definition tickCandle :: "string \<Rightarrow> string \<Rightarrow> FinMindData \<Rightarrow> FinMindTick list \<Rightarrow> FinMindData" where
  "tickCandle todayStr stockCode lastDataPoint ticks =
     (let opn = deal_price (ticks ! 0);
          cls = deal_price (ticks ! (length ticks - 1))
      in case fold tickStep ticks (opn, opn, 0) of (hi, lo, vol) \<Rightarrow>
           \<lparr> fm_date = todayStr, fm_stock_id = stockCode, Trading_Volume = vol,
             Trading_money = 0, fm_open = opn, fm_max = hi, fm_min = lo, fm_close = cls,
             spread = cls - fm_close lastDataPoint, Trading_turnover = 0 \<rparr>)"

text \<open>
  Step 2 of the per-symbol pipeline, entered with a non-empty \<open>rawData\<close>. The result is
  the list of requests issued and \<open>rawData\<close> after the step. A failed tick request is
  caught and leaves \<open>rawData\<close> as it is.
\<close>

definition realtimeSnapshot ::
  "Provider \<Rightarrow> string \<Rightarrow> string \<Rightarrow> FinMindData list \<Rightarrow> request list \<times> FinMindData list"
where
  "realtimeSnapshot provider todayStr stockCode rawData =
     (let lastDataPoint = rawData ! (length rawData - 1) in
      if fm_date lastDataPoint \<noteq> todayStr then
        (case getTick provider stockCode todayStr of
           Inl snapshotError \<Rightarrow> ([TaiwanStockTick stockCode todayStr], rawData)
         | Inr None \<Rightarrow> ([TaiwanStockTick stockCode todayStr], rawData)
         | Inr (Some ticks) \<Rightarrow>
             ([TaiwanStockTick stockCode todayStr],
              if length ticks > 0
              then rawData @ [tickCandle todayStr stockCode lastDataPoint ticks]
              else rawData))
      else ([], rawData))"

section \<open>MomentumScorer: the snapshot of fetchMarketData\<close>

text \<open>
  \<open>Number(x.toFixed(2))\<close> for a double \<open>x\<close> below \<open>10 ^ 21\<close> in magnitude: the digits
  are those of the nearest multiple of 0.01 to \<open>x\<close>, the larger in magnitude on a tie, and
  \<open>Number\<close> reads them as the nearest double.
\<close>

definition toFixed2 :: "real \<Rightarrow> real" where
  "toFixed2 x = (if x < 0 then - fl (real_of_int (round (- x * 100)) / 100)
                 else fl (real_of_int (round (x * 100)) / 100))"

text \<open>
  \<open>avg ? v > avg : false\<close> for \<open>avg\<close> of type \<open>number | null\<close>: \<open>null\<close> and \<open>0\<close> are
  falsy.
\<close>

definition aboveIfTruthy :: "real option \<Rightarrow> real \<Rightarrow> bool" where
  "aboveIfTruthy avg v =
     (case avg of None \<Rightarrow> False | Some a \<Rightarrow> if a \<noteq> 0 then v > a else False)"

text \<open>
  The snapshot of a non-empty analysed series. \<open>u1\<close> and \<open>u2\<close> are the two
  \<open>Math.random()\<close> draws.
\<close>

definition buildStockData :: "StockSymbol \<Rightarrow> real \<Rightarrow> real \<Rightarrow> OHLC list \<Rightarrow> StockData" where
  "buildStockData stock u1 u2 analyzedData =
     (let lastCandle = analyzedData ! (length analyzedData - 1);
          prevCandle = (if length analyzedData > 1
                        then analyzedData ! (length analyzedData - 2) else lastCandle);
          yearHigh' = mathMax (map high analyzedData);
          ADR_Percent' = toFixed2 (fl (fl (u1 * 4) + 1.5));
          RS_Score' = fl (real_of_int \<lfloor>fl (u2 * 40)\<rfloor> + 55)
      in \<lparr> code = code stock, name = name stock, industry = industry stock,
           data = analyzedData,
           lastClose = close lastCandle,
           change = close lastCandle - close prevCandle,
           changePercent =
             jsTimes (jsDiv (close lastCandle - close prevCandle) (close prevCandle)) 100,
           isAbove200MA = aboveIfTruthy (ma200 lastCandle) (close lastCandle),
           isVolAbove5MA = aboveIfTruthy (volMa5 lastCandle) (volume lastCandle),
           ADR_Percent = ADR_Percent',
           RS_Score = RS_Score',
           yearHigh = yearHigh' \<rparr>)"

section \<open>The batch: fetchMarketData\<close>

definition TARGET_STOCKS :: "StockSymbol list" where
  "TARGET_STOCKS =
   [ \<lparr> code = ''2330'',
       name = [CHR 0xE5, CHR 0x8F, CHR 0xB0, CHR 0xE7, CHR 0xA9, CHR 0x8D, CHR 0xE9, CHR 0x9B, CHR 0xBB],
       industry = [CHR 0xE5, CHR 0x8D, CHR 0x8A, CHR 0xE5, CHR 0xB0, CHR 0x8E, CHR 0xE9, CHR 0xAB, CHR 0x94] \<rparr>,
     \<lparr> code = ''2317'',
       name = [CHR 0xE9, CHR 0xB4, CHR 0xBB, CHR 0xE6, CHR 0xB5, CHR 0xB7],
       industry = [CHR 0xE9, CHR 0x9B, CHR 0xBB, CHR 0xE5, CHR 0xAD, CHR 0x90, CHR 0xE4, CHR 0xBB, CHR 0xA3, CHR 0xE5, CHR 0xB7, CHR 0xA5] \<rparr>,
     \<lparr> code = ''2454'',
       name = [CHR 0xE8, CHR 0x81, CHR 0xAF, CHR 0xE7, CHR 0x99, CHR 0xBC, CHR 0xE7, CHR 0xA7, CHR 0x91],
       industry = ''IC'' @ [CHR 0xE8, CHR 0xA8, CHR 0xAD, CHR 0xE8, CHR 0xA8, CHR 0x88] \<rparr>,
     \<lparr> code = ''2603'',
       name = [CHR 0xE9, CHR 0x95, CHR 0xB7, CHR 0xE6, CHR 0xA6, CHR 0xAE],
       industry = [CHR 0xE8, CHR 0x88, CHR 0xAA, CHR 0xE9, CHR 0x81, CHR 0x8B] \<rparr>,
     \<lparr> code = ''3231'',
       name = [CHR 0xE7, CHR 0xB7, CHR 0xAF, CHR 0xE5, CHR 0x89, CHR 0xB5],
       industry = ''AI'' @ [CHR 0xE4, CHR 0xBC, CHR 0xBA, CHR 0xE6, CHR 0x9C, CHR 0x8D, CHR 0xE5, CHR 0x99, CHR 0xA8] \<rparr>,
     \<lparr> code = ''3008'',
       name = [CHR 0xE5, CHR 0xA4, CHR 0xA7, CHR 0xE7, CHR 0xAB, CHR 0x8B, CHR 0xE5, CHR 0x85, CHR 0x89],
       industry = [CHR 0xE5, CHR 0x85, CHR 0x89, CHR 0xE9, CHR 0x9B, CHR 0xBB] \<rparr>,
     \<lparr> code = ''3661'',
       name = [CHR 0xE4, CHR 0xB8, CHR 0x96, CHR 0xE8, CHR 0x8A, CHR 0xAF] @ ''-KY'',
       industry = ''IC'' @ [CHR 0xE8, CHR 0xA8, CHR 0xAD, CHR 0xE8, CHR 0xA8, CHR 0x88] \<rparr>,
     \<lparr> code = ''3035'',
       name = [CHR 0xE6, CHR 0x99, CHR 0xBA, CHR 0xE5, CHR 0x8E, CHR 0x9F],
       industry = ''IC'' @ [CHR 0xE8, CHR 0xA8, CHR 0xAD, CHR 0xE8, CHR 0xA8, CHR 0x88] \<rparr> ]"

text \<open>
  Steps 2 to 4 and the returned object, for a price response that passed the check
  \<open>msg === 'success' && data.length > 0\<close>.
\<close>

definition analyseRows ::
  "Provider \<Rightarrow> (string \<Rightarrow> real \<times> real) \<Rightarrow> string \<Rightarrow> StockSymbol \<Rightarrow> FinMindData list
     \<Rightarrow> request list \<times> StockData"
where
  "analyseRows provider rnd todayStr stock rows =
     (case realtimeSnapshot provider todayStr (code stock) rows of (reqs, rawData) \<Rightarrow>
        let processedData = processData rawData;
            analyzedData = detectPatterns processedData
        in (reqs, buildStockData stock (fst (rnd (code stock))) (snd (rnd (code stock)))
                    analyzedData))"

text \<open>
  The body of the outer \<open>try\<close> for one stock: \<open>Inl\<close> is a thrown error, \<open>Inr None\<close> is
  \<open>null\<close>. \<open>rnd\<close> gives the two random draws of each stock code.
\<close>

definition tryFetchStock ::
  "Provider \<Rightarrow> (string \<Rightarrow> real \<times> real) \<Rightarrow> string \<Rightarrow> string \<Rightarrow> StockSymbol
     \<Rightarrow> request list \<times> (fetchError + StockData option)"
where
  "tryFetchStock provider rnd startDateStr todayStr stock =
     (case getPrice provider (code stock) startDateStr of
        Inl err \<Rightarrow> ([TaiwanStockPrice (code stock) startDateStr], Inl err)
      | Inr response \<Rightarrow>
          if resp_msg response = ''success'' \<and> length (resp_data response) > 0 then
            (case analyseRows provider rnd todayStr stock (resp_data response) of
               (reqs, result) \<Rightarrow>
                 (TaiwanStockPrice (code stock) startDateStr # reqs, Inr (Some result)))
          else ([TaiwanStockPrice (code stock) startDateStr], Inr None))"

text \<open>The \<open>async\<close> callback with its \<open>catch\<close>: a thrown error becomes \<open>null\<close>.\<close>

definition fetchStock ::
  "Provider \<Rightarrow> (string \<Rightarrow> real \<times> real) \<Rightarrow> string \<Rightarrow> string \<Rightarrow> StockSymbol
     \<Rightarrow> request list \<times> (fetchError + StockData option)"
where
  "fetchStock provider rnd startDateStr todayStr stock =
     (case tryFetchStock provider rnd startDateStr todayStr stock of
        (reqs, Inl err) \<Rightarrow> (reqs, Inr None)
      | (reqs, Inr result) \<Rightarrow> (reqs, Inr result))"

text \<open>
  \<open>Promise.all\<close>: the results in the order of the promises, or a rejection if some
  promise rejects (here the first in list order).
\<close>

fun promiseAll :: "('e + 'a) list \<Rightarrow> 'e + 'a list" where
  "promiseAll [] = Inr []"
| "promiseAll (Inl e # ps) = Inl e"
| "promiseAll (Inr x # ps) = (case promiseAll ps of Inl e \<Rightarrow> Inl e | Inr xs \<Rightarrow> Inr (x # xs))"

definition fetchMarketData ::
  "Provider \<Rightarrow> (string \<Rightarrow> real \<times> real) \<Rightarrow> string \<Rightarrow> string \<Rightarrow> fetchError + StockData list"
where
  "fetchMarketData provider rnd startDateStr todayStr =
     (let stockPromises =
            map (\<lambda>stock. snd (fetchStock provider rnd startDateStr todayStr stock)) TARGET_STOCKS
      in case promiseAll stockPromises of
           Inl err \<Rightarrow> Inl err
         | Inr results \<Rightarrow> Inr (map the (filter (\<lambda>item. item \<noteq> None) results)))"

section \<open>Batch outcome: which fetches succeed\<close>

text \<open>
  A stock's fetch succeeds when its price request returns a payload with \<open>msg\<close>
  \<open>success\<close> and at least one row.
\<close>

definition fetchSucceeded :: "Provider \<Rightarrow> string \<Rightarrow> StockSymbol \<Rightarrow> bool" where
  "fetchSucceeded provider startDateStr stock =
     (case getPrice provider (code stock) startDateStr of
        Inl err \<Rightarrow> False
      | Inr response \<Rightarrow> resp_msg response = ''success'' \<and> resp_data response \<noteq> [])"

text \<open>The snapshot built from the rows a stock's price request returned.\<close>

definition snapshotOf ::
  "Provider \<Rightarrow> (string \<Rightarrow> real \<times> real) \<Rightarrow> string \<Rightarrow> string \<Rightarrow> StockSymbol \<Rightarrow> StockData"
where
  "snapshotOf provider rnd startDateStr todayStr stock =
     snd (analyseRows provider rnd todayStr stock
            (resp_data (projr (getPrice provider (code stock) startDateStr))))"

section \<open>ScreeningFilter: filteredStocks\<close>

text \<open>
  The callback of \<open>stocks.filter\<close>. The literal \<open>0.85\<close> is the double \<open>fl 0.85\<close> and the
  product is a double product; 3.5 and 80 are doubles.
\<close>

definition strictFilter :: "StockData \<Rightarrow> bool" where
  "strictFilter s =
     (isAbove200MA s \<and>
      isVolAbove5MA s \<and>
      ADR_Percent s > 3.5 \<and>
      RS_Score s > 80 \<and>
      lastClose s \<ge> fl (yearHigh s * fl 0.85))"

definition filteredStocks :: "bool \<Rightarrow> StockData list \<Rightarrow> StockData list" where
  "filteredStocks filterEnabled stocks =
     (if filterEnabled then filter strictFilter stocks else stocks)"

section \<open>RiskSizer: calculatePosition\<close>


section \<open>Example inputs\<close>

definition exRow :: "string \<Rightarrow> real \<Rightarrow> real \<Rightarrow> real \<Rightarrow> real \<Rightarrow> real \<Rightarrow> FinMindData" where
  "exRow d opn hi lo cls vol =
     \<lparr> fm_date = d, fm_stock_id = ''2330'', Trading_Volume = vol, Trading_money = 0,
       fm_open = opn, fm_max = hi, fm_min = lo, fm_close = cls, spread = 0,
       Trading_turnover = 0 \<rparr>"

definition exRows :: "FinMindData list" where
  "exRows =
     [exRow ''2024-01-02'' 10 10.5 9.5 10 100,
      exRow ''2024-01-03'' 10 12.5 9.9 12 200,
      exRow ''2024-01-04'' 12 12.2 10.8 11 300,
      exRow ''2024-01-05'' 11 13.1 10.9 13 400,
      exRow ''2024-01-08'' 13 14.4 12.7 14 500]"

definition exBase :: OHLC where
  "exBase = \<lparr> date = ''2024-01-02'', openPx = 99.5, high = 100, low = 99, close = 99.6,
      volume = 1000, ma5 = None, ma10 = None, ma20 = None, ma50 = None, ma200 = None,
      volMa5 = None, isPinBar = None, isEngulfing = None, isRSFlip = None,
      signalType = None \<rparr>"

definition exPin :: OHLC where
  "exPin = exBase \<lparr> date := ''2024-03-15'', openPx := 100, close := 100.2, high := 100.3, low := 99 \<rparr>"

definition exSeries :: "OHLC list" where
  "exSeries = replicate 51 exBase @ [exPin]"


definition exStock :: StockData where
  "exStock = \<lparr> code = ''2330'', name = ''TSMC'', industry = ''Semiconductors'',
      data = [], lastClose = 95, change = 1, changePercent = Fin 1.0625,
      isAbove200MA = True, isVolAbove5MA = True, ADR_Percent = 4.25, RS_Score = 88,
      yearHigh = 100 \<rparr>"

text \<open>
  Snapshots on the 85% line: a year high of 12 with the last close 10.2, and a year high
  of 11.8 with the last close 10.03, each decimal as the double the program holds for it.
\<close>

definition exOnLine :: StockData where
  "exOnLine = exStock \<lparr> yearHigh := 12, lastClose := fl 10.2 \<rparr>"

definition exOffLine :: StockData where
  "exOffLine = exStock \<lparr> yearHigh := fl 11.8, lastClose := fl 10.03 \<rparr>"



definition exTicks :: "FinMindTick list" where
  "exTicks =
     [\<lparr> tick_date = ''2024-01-09'', tick_stock_id = ''2330'', deal_price = 15, deal_trading_volume = 10 \<rparr>,
      \<lparr> tick_date = ''2024-01-09'', tick_stock_id = ''2330'', deal_price = 16, deal_trading_volume = 5 \<rparr>,
      \<lparr> tick_date = ''2024-01-09'', tick_stock_id = ''2330'', deal_price = 14.5, deal_trading_volume = 20 \<rparr>,
      \<lparr> tick_date = ''2024-01-09'', tick_stock_id = ''2330'', deal_price = 15.5, deal_trading_volume = 7 \<rparr>]"

definition exProvider :: Provider where
  "exProvider =
     \<lparr> getPrice = (\<lambda>c s.
          if c = ''2317'' then Inl FetchError
          else if c = ''2454'' then Inr \<lparr> resp_msg = ''success'', resp_data = [] \<rparr>
          else if c = ''3008'' then Inr \<lparr> resp_msg = ''error'', resp_data = exRows \<rparr>
          else Inr \<lparr> resp_msg = ''success'', resp_data = exRows \<rparr>),
       getTick = (\<lambda>c d.
          if c = ''2330'' then Inr (Some exTicks)
          else if c = ''2603'' then Inr None
          else if c = ''3231'' then Inr (Some [])
          else Inl FetchError) \<rparr>"

definition exRnd :: "string \<Rightarrow> real \<times> real" where
  "exRnd c = (if c = ''2330'' then (0.7, 0.9) else (0.25, 0.5))"

definition exLongRows :: "FinMindData list" where
  "exLongRows = replicate 199 (exRow ''2023-06-01'' 10 10.5 9.5 10 100)
                @ [exRow ''2024-01-08'' 10 11.5 9.9 11 150]"

section \<open>Numbers: rounding to double\<close>

text \<open>
  What the lemmas of this section say of \<open>fl\<close>: the error is at most half a unit in the
  last place (\<open>fl_error\<close>), the result is an integer of at most 53 bits times a power of
  two within the exponent range (\<open>fl_binary64\<close>), the sign is kept, and the difference of
  two doubles rounds to zero only if it is zero (\<open>fl_diff_sign\<close>).
\<close>

lemmas fl_eval = fl_def binExp_def roundEven_def Let_def expUp.simps expDown.simps

text \<open>
  Some values: the doubles of 0.1 and 0.85, and two ties above \<open>2 ^ 53\<close>, each going to
  the even neighbour.
\<close>

lemma fl_examples:
  "fl 0.1 = 3602879701896397 / 36028797018963968"
  "fl 0.85 = 7656119366529843 / 9007199254740992"
  "fl (2 ^ 53 + 1) = 2 ^ 53"
  "fl (2 ^ 53 + 3) = 2 ^ 53 + 4"
  "fl (- 0.5) = - 0.5"
  "fl 0 = 0"
  by (simp_all add: fl_eval)

lemma roundEven_error: "\<bar>real_of_int (roundEven y) - y\<bar> \<le> 1 / 2"
proof -
  define f where "f = \<lfloor>y\<rfloor>"
  define d where "d = y - real_of_int f"
  have d: "0 \<le> d" "d < 1"
    unfolding d_def f_def by linarith+
  have r: "roundEven y =
      (if d < 1 / 2 then f else if 1 / 2 < d then f + 1 else if even f then f else f + 1)"
    by (simp add: roundEven_def Let_def f_def d_def)
  have "\<bar>real_of_int (roundEven y) - (real_of_int f + d)\<bar> \<le> 1 / 2"
    unfolding r using d by (simp add: abs_if)
  then show ?thesis by (simp add: d_def)
qed

lemma roundEven_nonneg: "0 \<le> y \<Longrightarrow> 0 \<le> roundEven y"
  unfolding roundEven_def Let_def by (auto simp: not_less)



lemma roundEven_of_int: "roundEven (real_of_int n) = n"
  by (simp add: roundEven_def)

lemma expUp_spec:
  "1 \<le> x \<Longrightarrow>
   e \<le> expUp e x \<and> expUp e x \<le> max e 1023 \<and> 2 powi (expUp e x - e) \<le> x \<and>
   (x < 2 powi (1024 - e) \<longrightarrow> x < 2 powi (expUp e x - e + 1))"
proof (induction e x rule: expUp.induct)
  case (1 e x)
  show ?case
  proof (cases "x < 2 \<or> 1023 \<le> e")
    case True
    then have r: "expUp e x = e" by (simp add: expUp.simps)
    have "x < 2 powi (1024 - e) \<longrightarrow> x < 2"
    proof
      assume a: "x < 2 powi (1024 - e)"
      show "x < 2"
      proof (cases "x < 2")
        case False
        with True have "1024 - e \<le> 1" by simp
        then have "(2::real) powi (1024 - e) \<le> 2 powi 1"
          by (intro power_int_increasing) simp_all
        with a show ?thesis by simp
      qed simp
    qed
    with r "1.prems" show ?thesis by simp
  next
    case False
    then have r: "expUp e x = expUp (e + 1) (x / 2)" by (simp add: expUp.simps)
    from False "1.prems" have h: "1 \<le> x / 2" by simp
    note ih = "1.IH" [OF False h]
    have p1: "(2::real) powi (expUp (e + 1) (x / 2) - e) =
              2 powi (expUp (e + 1) (x / 2) - (e + 1)) * 2"
      using power_int_add_1 [of "2::real" "expUp (e + 1) (x / 2) - (e + 1)"]
      by (simp add: algebra_simps)
    have p2: "(2::real) powi (1024 - e) = 2 powi (1024 - (e + 1)) * 2"
      using power_int_add_1 [of "2::real" "1024 - (e + 1)"] by (simp add: algebra_simps)
    have p3: "(2::real) powi (expUp (e + 1) (x / 2) - e + 1) =
              2 powi (expUp (e + 1) (x / 2) - (e + 1) + 1) * 2"
      using power_int_add_1 [of "2::real" "expUp (e + 1) (x / 2) - (e + 1) + 1"]
      by (simp add: algebra_simps)
    from ih False show ?thesis
      unfolding r p1 p2 p3 by auto
  qed
qed

lemma expDown_spec:
  "0 < x \<Longrightarrow> x < 2 \<Longrightarrow> - 1022 \<le> e \<Longrightarrow>
   - 1022 \<le> expDown e x \<and> expDown e x \<le> e \<and>
   (expDown e x = - 1022 \<or> 2 powi (expDown e x - e) \<le> x) \<and>
   x < 2 powi (expDown e x - e + 1)"
proof (induction e x rule: expDown.induct)
  case (1 e x)
  show ?case
  proof (cases "1 \<le> x \<or> e \<le> - 1022")
    case True
    then have r: "expDown e x = e" by (simp add: expDown.simps)
    with True "1.prems" show ?thesis by auto
  next
    case False
    then have r: "expDown e x = expDown (e - 1) (x * 2)" by (simp add: expDown.simps)
    from False "1.prems" have h: "0 < x * 2" "x * 2 < 2" "- 1022 \<le> e - 1" by simp_all
    note ih = "1.IH" [OF False h]
    have p1: "(2::real) powi (expDown (e - 1) (x * 2) - (e - 1)) =
              2 powi (expDown (e - 1) (x * 2) - e) * 2"
      using power_int_add_1 [of "2::real" "expDown (e - 1) (x * 2) - e"]
      by (simp add: algebra_simps)
    have p2: "(2::real) powi (expDown (e - 1) (x * 2) - (e - 1) + 1) =
              2 powi (expDown (e - 1) (x * 2) - e + 1) * 2"
      using power_int_add_1 [of "2::real" "expDown (e - 1) (x * 2) - e + 1"]
      by (simp add: algebra_simps)
    from ih show ?thesis
      unfolding r p1 p2 by auto
  qed
qed

lemma binExp_range: "- 1022 \<le> binExp x \<and> binExp x \<le> 1023"
proof (cases "1 \<le> \<bar>x\<bar>")
  case True
  with expUp_spec [of "\<bar>x\<bar>" 0] show ?thesis by (simp add: binExp_def)
next
  case False
  show ?thesis
  proof (cases "x = 0")
    case True
    then show ?thesis by (simp add: binExp_def expDown.simps)
  next
    case nz: False
    with False expDown_spec [of "\<bar>x\<bar>" 0] show ?thesis by (simp add: binExp_def)
  qed
qed


lemma binExp_upper:
  assumes "\<bar>x\<bar> < 2 ^ 1024"
  shows "\<bar>x\<bar> < 2 powi (binExp x + 1)"
proof (cases "1 \<le> \<bar>x\<bar>")
  case True
  with expUp_spec [of "\<bar>x\<bar>" 0] assms show ?thesis by (simp add: binExp_def)
next
  case False
  show ?thesis
  proof (cases "x = 0")
    case True
    then show ?thesis by simp
  next
    case nz: False
    with False expDown_spec [of "\<bar>x\<bar>" 0] show ?thesis by (simp add: binExp_def)
  qed
qed

lemma fl_error: "\<bar>fl x - x\<bar> \<le> 2 powi (binExp x - 53)"
proof -
  define u :: real where "u = 2 powi (binExp x - 52)"
  have u: "0 < u" by (simp add: u_def)
  have h: "(2::real) powi (binExp x - 53) = u / 2"
    using power_int_add_1 [of "2::real" "binExp x - 53"] by (simp add: u_def)
  have "fl x - x = u * (real_of_int (roundEven (x / u)) - x / u)"
    using u by (simp add: fl_def Let_def u_def [symmetric] algebra_simps)
  then have "\<bar>fl x - x\<bar> = u * \<bar>real_of_int (roundEven (x / u)) - x / u\<bar>"
    using u by (simp add: abs_mult)
  also have "\<dots> \<le> u * (1 / 2)"
    using u roundEven_error [of "x / u"] by (intro mult_left_mono) simp_all
  finally show ?thesis by (simp add: h)
qed

lemma fl_nonneg: "0 \<le> x \<Longrightarrow> 0 \<le> fl x"
  by (simp add: fl_def Let_def roundEven_nonneg)





lemma roundEven_le: "y \<le> real_of_int N \<Longrightarrow> roundEven y \<le> N"
proof -
  assume a: "y \<le> real_of_int N"
  have e: "\<bar>real_of_int (roundEven y) - y\<bar> \<le> 1 / 2" by (rule roundEven_error)
  then have "real_of_int (roundEven y) \<le> real_of_int N + 1 / 2" using a by linarith
  then have "real_of_int (roundEven y) < real_of_int (N + 1)" by simp
  then have "roundEven y < N + 1" by (simp only: of_int_less_iff)
  then show ?thesis by simp
qed

lemma roundEven_ge: "real_of_int N \<le> y \<Longrightarrow> N \<le> roundEven y"
proof -
  assume a: "real_of_int N \<le> y"
  have e: "\<bar>real_of_int (roundEven y) - y\<bar> \<le> 1 / 2" by (rule roundEven_error)
  then have "real_of_int N - 1 / 2 \<le> real_of_int (roundEven y)" using a by linarith
  then have "real_of_int (N - 1) < real_of_int (roundEven y)" by simp
  then have "N - 1 < roundEven y" by (simp only: of_int_less_iff)
  then show ?thesis by simp
qed

lemma fl_binary64:
  assumes "\<bar>x\<bar> < 2 ^ 1024"
  shows "\<exists>m e. fl x = real_of_int m * 2 powi (e - 52) \<and> \<bar>m\<bar> \<le> 2 ^ 53 \<and>
           - 1022 \<le> e \<and> e \<le> 1023"
proof -
  define e where "e = binExp x"
  define u :: real where "u = 2 powi (e - 52)"
  define m where "m = roundEven (x / u)"
  have u: "0 < u" by (simp add: u_def)
  have "(2::real) powi (e + 1) = 2 powi 53 * 2 powi (e - 52)"
    using power_int_add [of "2::real" 53 "e - 52"] by (simp add: algebra_simps)
  then have p: "(2::real) powi (e + 1) = 2 ^ 53 * u" by (simp add: u_def)
  from binExp_upper [OF assms] have "\<bar>x\<bar> < 2 powi (e + 1)" by (simp only: e_def)
  then have "\<bar>x\<bar> < 2 ^ 53 * u" by (simp only: p)
  then have "\<bar>x\<bar> / u < 2 ^ 53" using u by (simp add: field_simps)
  then have ay: "\<bar>x / u\<bar> < 2 ^ 53" using u by simp
  define y where "y = x / u"
  from ay have "y < 2 ^ 53" and "- (2 ^ 53) < y"
    unfolding y_def [symmetric] by (simp_all only: abs_less_iff minus_less_iff)
  then have yu: "y \<le> real_of_int (2 ^ 53)" and yl: "real_of_int (- (2 ^ 53)) \<le> y"
    by simp_all
  have "m \<le> 2 ^ 53"
    unfolding m_def y_def [symmetric] using yu by (rule roundEven_le)
  moreover have "- (2 ^ 53) \<le> m"
    unfolding m_def y_def [symmetric] using yl by (rule roundEven_ge)
  ultimately
  have "\<bar>m\<bar> \<le> 2 ^ 53" by simp
  moreover have "fl x = real_of_int m * 2 powi (e - 52)"
    by (simp add: fl_def Let_def m_def u_def e_def)
  moreover have "- 1022 \<le> e \<and> e \<le> 1023"
    unfolding e_def by (rule binExp_range)
  ultimately show ?thesis by blast
qed

section \<open>IndicatorEngine: moving averages\<close>

lemma fold_indicatorStep:
  "fold indicatorStep raw ([], [], []) =
     (map fm_close raw, map Trading_Volume raw,
      map (\<lambda>k. mkCandle (raw ! k) (take (Suc k) (map fm_close raw))
                    (take (Suc k) (map Trading_Volume raw))) [0..<length raw])"
proof (induction raw rule: rev_induct)
  case Nil
  show ?case by simp
next
  case (snoc d raw)
  have "map (\<lambda>k. mkCandle ((raw @ [d]) ! k) (take (Suc k) (map fm_close (raw @ [d])))
                    (take (Suc k) (map Trading_Volume (raw @ [d])))) [0..<length raw]
      = map (\<lambda>k. mkCandle (raw ! k) (take (Suc k) (map fm_close raw))
                    (take (Suc k) (map Trading_Volume raw))) [0..<length raw]"
    by (rule map_cong) (auto simp: nth_append)
  with snoc show ?case
    by (simp add: indicatorStep_def mkCandle_def Let_def)
qed

lemma length_processData: "length (processData raw) = length raw"
  by (simp add: processData_def fold_indicatorStep)

lemma processData_nth:
  "i < length raw \<Longrightarrow>
   processData raw ! i = mkCandle (raw ! i) (take (Suc i) (map fm_close raw))
                                  (take (Suc i) (map Trading_Volume raw))"
  by (simp add: processData_def fold_indicatorStep)

lemma map_close_processData: "map close (processData raw) = map fm_close raw"
  by (rule nth_equalityI) (simp_all add: length_processData processData_nth mkCandle_def)

lemma map_volume_processData: "map volume (processData raw) = map Trading_Volume raw"
  by (rule nth_equalityI) (simp_all add: length_processData processData_nth mkCandle_def)

lemma foldl_plus_sum_list: "foldl (\<lambda>a b. a + b) (s::real) xs = s + sum_list xs"
  by (induction xs arbitrary: s) simp_all

lemma drop_take_nth:
  assumes "b \<le> length xs"
  shows "drop a (take b xs) = map ((!) xs) [a..<b]"
proof (rule nth_equalityI)
  show "length (drop a (take b xs)) = length (map ((!) xs) [a..<b])"
    using assms by simp
next
  fix i
  assume "i < length (drop a (take b xs))"
  with assms have "i < b - a" by simp
  then show "drop a (take b xs) ! i = map ((!) xs) [a..<b] ! i"
    using assms by simp
qed

lemma sum_list_drop_take:
  "b \<le> length xs \<Longrightarrow> sum_list (drop a (take b xs)) = (\<Sum>j = a..<b. (xs ! j :: real))"
  by (simp add: drop_take_nth interv_sum_list_conv_sum_set_nat)

lemma calculateSMA_prefix:
  assumes "i < length xs" and "0 < W"
  shows "calculateSMA (take (Suc i) xs) W =
           (if W - 1 \<le> i then Some (meanOver xs W i) else None)"
proof (cases "W - 1 \<le> i")
  case False
  with assms show ?thesis by (simp add: calculateSMA_def)
next
  case True
  with assms have le: "W \<le> Suc i" by simp
  from assms have len: "length (take (Suc i) xs) = Suc i" by simp
  have "sum_list (drop (Suc i - W) (take (Suc i) xs)) = (\<Sum>j = Suc i - W..<Suc i. xs ! j)"
    using assms by (intro sum_list_drop_take) simp
  with True le len show ?thesis
    by (simp add: calculateSMA_def Let_def foldl_plus_sum_list meanOver_def del: sum.op_ivl_Suc)
qed

text \<open>
  Claim C1. At position \<open>i\<close> of the annotated series, each of the five price averages
  (windows 5, 10, 20, 50, 200) and the volume average (window 5) is defined exactly when
  \<open>i \<ge> W - 1\<close>, and then it is the arithmetic mean of the closes (the volumes) at the
  positions \<open>i - W + 1\<close> to \<open>i\<close>. For the closes 10, 12, 11, 13, 14 the 3-period average
  at index 4 is \<open>(11 + 13 + 14) / 3\<close>.
\<close>

theorem moving_average_annotation:
  assumes "i < length rawData"
  shows "ma5 (processData rawData ! i) =
           (if 5 - 1 \<le> i then Some (meanOver (map close (processData rawData)) 5 i) else None)
       \<and> ma10 (processData rawData ! i) =
           (if 10 - 1 \<le> i then Some (meanOver (map close (processData rawData)) 10 i) else None)
       \<and> ma20 (processData rawData ! i) =
           (if 20 - 1 \<le> i then Some (meanOver (map close (processData rawData)) 20 i) else None)
       \<and> ma50 (processData rawData ! i) =
           (if 50 - 1 \<le> i then Some (meanOver (map close (processData rawData)) 50 i) else None)
       \<and> ma200 (processData rawData ! i) =
           (if 200 - 1 \<le> i then Some (meanOver (map close (processData rawData)) 200 i) else None)
       \<and> volMa5 (processData rawData ! i) =
           (if 5 - 1 \<le> i then Some (meanOver (map volume (processData rawData)) 5 i) else None)
       \<and> calculateSMA [10, 12, 11, 13, 14] 3 = Some ((11 + 13 + 14) / 3)"
proof -
  have c: "i < length (map fm_close rawData)" and v: "i < length (map Trading_Volume rawData)"
    using assms by simp_all
  have ex: "calculateSMA [10, 12, 11, 13, 14] 3 = Some ((11 + 13 + 14) / 3)"
    by (simp add: calculateSMA_def)
  show ?thesis
    unfolding map_close_processData map_volume_processData
    using calculateSMA_prefix [OF c, of 5] calculateSMA_prefix [OF c, of 10]
      calculateSMA_prefix [OF c, of 20] calculateSMA_prefix [OF c, of 50]
      calculateSMA_prefix [OF c, of 200] calculateSMA_prefix [OF v, of 5] ex
    by (simp add: processData_nth [OF assms] mkCandle_def)
qed

theorem moving_average_annotation_witness:
  "ma5 (processData exRows ! 4) = Some 12 \<and> ma10 (processData exRows ! 4) = None
   \<and> ma5 (processData exRows ! 3) = None \<and> volMa5 (processData exRows ! 4) = Some 300"
proof -
  have len: "length exRows = 5" by (simp add: exRows_def)
  have c: "map fm_close exRows = [10, 12, 11, 13, 14]"
    and v: "map Trading_Volume exRows = [100, 200, 300, 400, 500]"
    by (simp_all add: exRows_def exRow_def)
  have s: "{0..<5::nat} = {0, 1, 2, 3, 4}" by auto
  have m: "meanOver [10, 12, 11, 13, 14] 5 4 = 12" "meanOver [100, 200, 300, 400, 500] 5 4 = 300"
    by (simp_all add: meanOver_def s)
  show ?thesis
    using moving_average_annotation [of 4 exRows] moving_average_annotation [of 3 exRows]
    by (simp add: len map_close_processData map_volume_processData c v m)
qed

section \<open>SignalDetector: pin bar, resistance flip and signal\<close>

lemma length_detectPatterns: "length (detectPatterns xs) = length xs"
  by (simp add: detectPatterns_def)

lemma detectPatterns_nth:
  "i < length xs \<Longrightarrow> detectPatterns xs ! i = detectAt (keyLevelOf xs) xs i"
  by (simp add: detectPatterns_def)

lemma detectAt_0: "detectAt k xs 0 = xs ! 0"
  by (simp add: detectAt_def)

lemma detectAt_isPinBar:
  "0 < i \<Longrightarrow> isPinBar (detectAt k xs i) =
     Some (high (xs ! i) - low (xs ! i) > 0 \<and>
           min (openPx (xs ! i)) (close (xs ! i)) - low (xs ! i) > (high (xs ! i) - low (xs ! i)) * 0.6 \<and>
           \<bar>openPx (xs ! i) - close (xs ! i)\<bar> < (high (xs ! i) - low (xs ! i)) * 0.25 \<and>
           high (xs ! i) - max (openPx (xs ! i)) (close (xs ! i)) < (high (xs ! i) - low (xs ! i)) * 0.15)"
  by (simp add: detectAt_def Let_def)

lemma detectAt_isEngulfing:
  "0 < i \<Longrightarrow> isEngulfing (detectAt k xs i) =
     Some (close (xs ! (i - 1)) < openPx (xs ! (i - 1)) \<and>
           close (xs ! i) > openPx (xs ! i) \<and>
           openPx (xs ! i) < close (xs ! (i - 1)) \<and>
           close (xs ! i) > openPx (xs ! (i - 1)))"
  by (simp add: detectAt_def Let_def)

lemma detectAt_isRSFlip:
  "0 < i \<Longrightarrow> isRSFlip (detectAt k xs i) =
     Some (nearKeyLevel k (xs ! i) \<and>
           (isPinBar (detectAt k xs i) = Some True \<or> isEngulfing (detectAt k xs i) = Some True))"
  by (simp add: detectAt_def Let_def)

lemma detectAt_signalType:
  "0 < i \<Longrightarrow> signalType (detectAt k xs i) =
     Some (if isRSFlip (detectAt k xs i) = Some True \<or>
              (isPinBar (detectAt k xs i) = Some True \<and> nearKeyLevel k (xs ! i)) \<or>
              (isEngulfing (detectAt k xs i) = Some True \<and> nearKeyLevel k (xs ! i))
           then Some BUY else None)"
  by (simp add: detectAt_def Let_def)

lemma detectAt_unchanged:
  "close (detectAt k xs i) = close (xs ! i)"
  "volume (detectAt k xs i) = volume (xs ! i)"
  "high (detectAt k xs i) = high (xs ! i)"
  "ma200 (detectAt k xs i) = ma200 (xs ! i)"
  "volMa5 (detectAt k xs i) = volMa5 (xs ! i)"
  by (simp_all add: detectAt_def Let_def)

lemma processData_unannotated:
  assumes "i < length raw"
  shows "isPinBar (processData raw ! i) = None" "isEngulfing (processData raw ! i) = None"
    "isRSFlip (processData raw ! i) = None" "signalType (processData raw ! i) = None"
  using assms by (simp_all add: processData_nth mkCandle_def)

lemma mathMax_Max:
  assumes "xs \<noteq> []"
  shows "mathMax xs = Max (set xs)"
proof (cases xs)
  case Nil
  with assms show ?thesis by simp
next
  case (Cons a list)
  then show ?thesis using Max.set_eq_fold [of a list] by simp
qed

lemma nearKeyLevel_zero: "\<not> nearKeyLevel 0 c"
  by (simp add: nearKeyLevel_def jsDiv_def)

lemma keyLevelOf_exSeries: "keyLevelOf exSeries = 100"
proof -
  have "take 50 exSeries = replicate 50 exBase"
    by (simp add: exSeries_def)
  then have "map high (take 50 exSeries) = replicate 50 100"
    by (simp add: exBase_def)
  moreover have "mathMax (replicate 50 (100::real)) = 100"
    by (subst mathMax_Max) simp_all
  moreover have "length exSeries = 52"
    by (simp add: exSeries_def)
  ultimately show ?thesis
    by (simp add: keyLevelOf_def)
qed

lemma exSeries_nth: "exSeries ! 51 = exPin" "exSeries ! 50 = exBase" "exSeries ! 49 = exBase"
  by (simp_all add: exSeries_def nth_append)

lemma exSeries_near: "nearKeyLevel 100 exPin" "nearKeyLevel 100 exBase"
  by (simp_all add: nearKeyLevel_def jsDiv_def exPin_def exBase_def)

lemma exSeries_pin:
  "isPinBar (detectAt 100 exSeries 51) = Some True"
  "isPinBar (detectAt 100 exSeries 50) = Some False"
  by (simp_all add: detectAt_isPinBar exSeries_nth) (simp_all add: exPin_def exBase_def)

lemma exSeries_engulfing:
  "isEngulfing (detectAt 100 exSeries 51) = Some False"
  "isEngulfing (detectAt 100 exSeries 50) = Some False"
  by (simp_all add: detectAt_isEngulfing exSeries_nth) (simp_all add: exPin_def exBase_def)

text \<open>
  Claim C6. For a candle at index \<open>i \<ge> 1\<close>, with range = high - low,
  body = |open - close|, upperWick = high - max(open, close) and
  lowerWick = min(open, close) - low, the pin-bar flag is true exactly when range > 0,
  lowerWick > 0.6 range, body < 0.25 range and upperWick < 0.15 range. A candle with
  open 10, close 10.2, high 10.3 and low 9.0 is flagged a pin bar.
\<close>

theorem pin_bar_flag:
  assumes "1 \<le> i" and "i < length xs"
  shows "isPinBar (detectPatterns xs ! i) =
           Some (let c = xs ! i;
                     rng = high c - low c;
                     body = \<bar>openPx c - close c\<bar>;
                     upperWick = high c - max (openPx c) (close c);
                     lowerWick = min (openPx c) (close c) - low c
                 in rng > 0 \<and> lowerWick > 0.6 * rng \<and> body < 0.25 * rng \<and>
                    upperWick < 0.15 * rng)
       \<and> (\<forall>p c. isPinBar (detectPatterns
             [p, c \<lparr> openPx := 10, close := 10.2, high := 10.3, low := 9.0 \<rparr>] ! 1) = Some True)"
proof -
  have "\<forall>p c. isPinBar (detectPatterns
          [p, c \<lparr> openPx := 10, close := 10.2, high := 10.3, low := 9.0 \<rparr>] ! 1) = Some True"
    by (simp add: detectPatterns_nth detectAt_isPinBar)
  moreover from assms have "0 < i" by simp
  ultimately show ?thesis
    using assms(2) by (simp add: detectPatterns_nth detectAt_isPinBar Let_def mult.commute)
qed

theorem pin_bar_flag_witness:
  "isPinBar (detectPatterns exSeries ! 51) = Some True
   \<and> isPinBar (detectPatterns exSeries ! 50) = Some False"
proof -
  have len: "length exSeries = 52" by (simp add: exSeries_def)
  have "isPinBar (detectPatterns exSeries ! 51) = Some True"
    using pin_bar_flag [of 51 exSeries] exSeries_pin(1)
    by (simp add: len detectPatterns_nth keyLevelOf_exSeries)
  moreover have "isPinBar (detectPatterns exSeries ! 50) = Some False"
    using pin_bar_flag [of 50 exSeries] exSeries_pin(2)
    by (simp add: len detectPatterns_nth keyLevelOf_exSeries)
  ultimately show ?thesis by simp
qed

lemma buy_logic:
  assumes "f = Some (n \<and> (p \<or> e))"
    and "s = Some (if f = Some True \<or> (p \<and> n) \<or> (e \<and> n) then Some BUY else None)"
  shows "(s = Some (Some BUY) \<longleftrightarrow> f = Some True) \<and> (s = Some None \<longleftrightarrow> f = Some False)"
  using assms by (cases n; cases p; cases e) simp_all

text \<open>
  Claim C10. At every index \<open>i \<ge> 1\<close> the directional signal is Buy exactly when the
  resistance-flip flag is true (and \<open>null\<close> exactly when it is false): the flag is
  near-key-level and (pin bar or engulfing), which subsumes the two further disjuncts of
  the Buy rule.
\<close>

theorem buy_iff_resistance_flip:
  assumes "1 \<le> i" and "i < length xs"
  shows "(signalType (detectPatterns xs ! i) = Some (Some BUY)
            \<longleftrightarrow> isRSFlip (detectPatterns xs ! i) = Some True)
       \<and> (signalType (detectPatterns xs ! i) = Some None
            \<longleftrightarrow> isRSFlip (detectPatterns xs ! i) = Some False)
       \<and> isRSFlip (detectPatterns xs ! i) =
           Some (nearKeyLevel (keyLevelOf xs) (xs ! i) \<and>
                 (isPinBar (detectPatterns xs ! i) = Some True \<or>
                  isEngulfing (detectPatterns xs ! i) = Some True))"
proof -
  from assms have pos: "0 < i" by simp
  have c: "detectPatterns xs ! i = detectAt (keyLevelOf xs) xs i"
    using assms(2) by (rule detectPatterns_nth)
  show ?thesis
    unfolding c
    using buy_logic [OF detectAt_isRSFlip [OF pos] detectAt_signalType [OF pos], of "keyLevelOf xs" xs]
      detectAt_isRSFlip [OF pos, of "keyLevelOf xs" xs]
    by blast
qed

theorem buy_iff_resistance_flip_witness:
  "signalType (detectPatterns exSeries ! 51) = Some (Some BUY)
   \<and> isRSFlip (detectPatterns exSeries ! 51) = Some True
   \<and> signalType (detectPatterns exSeries ! 50) = Some None
   \<and> isRSFlip (detectPatterns exSeries ! 50) = Some False"
proof -
  have len: "length exSeries = 52" by (simp add: exSeries_def)
  have a: "isRSFlip (detectPatterns exSeries ! 51) = Some True"
    by (simp add: len detectPatterns_nth keyLevelOf_exSeries detectAt_isRSFlip exSeries_pin
        exSeries_nth exSeries_near)
  have b: "isRSFlip (detectPatterns exSeries ! 50) = Some False"
    by (simp add: len detectPatterns_nth keyLevelOf_exSeries detectAt_isRSFlip exSeries_pin
        exSeries_engulfing)
  show ?thesis
    using buy_iff_resistance_flip [of 51 exSeries] buy_iff_resistance_flip [of 50 exSeries] a b
    by (simp add: len)
qed

section \<open>SignalDetector: signal values and the key level\<close>

lemma detectPatterns_0: "xs \<noteq> [] \<Longrightarrow> detectPatterns xs ! 0 = xs ! 0"
  by (simp add: detectPatterns_nth detectAt_0)

lemma signal_unique: "s = Some v \<Longrightarrow> \<exists>!w. s = Some w"
  by simp

text \<open>
  Claim C4. The pattern detector returns the candle at index 0 as it is, so in the
  pipeline it carries no signal annotation. Every candle at an index \<open>i \<ge> 1\<close> carries
  exactly one directional signal value; it is Buy when resistance-flip holds, or pin bar
  and near-key-level, or engulfing and near-key-level, and none (\<open>null\<close>) otherwise. The
  Sell value is never produced.
\<close>

theorem signal_annotation:
  "(xs \<noteq> [] \<longrightarrow> detectPatterns xs ! 0 = xs ! 0)
   \<and> (rawData \<noteq> [] \<longrightarrow>
        isPinBar (detectPatterns (processData rawData) ! 0) = None
      \<and> isEngulfing (detectPatterns (processData rawData) ! 0) = None
      \<and> isRSFlip (detectPatterns (processData rawData) ! 0) = None
      \<and> signalType (detectPatterns (processData rawData) ! 0) = None)
   \<and> (1 \<le> i \<and> i < length xs \<longrightarrow>
        (\<exists>!v. signalType (detectPatterns xs ! i) = Some v)
      \<and> signalType (detectPatterns xs ! i) =
          Some (if isRSFlip (detectPatterns xs ! i) = Some True
                   \<or> (isPinBar (detectPatterns xs ! i) = Some True
                        \<and> nearKeyLevel (keyLevelOf xs) (xs ! i))
                   \<or> (isEngulfing (detectPatterns xs ! i) = Some True
                        \<and> nearKeyLevel (keyLevelOf xs) (xs ! i))
                then Some BUY else None)
      \<and> signalType (detectPatterns xs ! i) \<noteq> Some (Some SELL))
   \<and> (\<forall>j<length rawData.
        signalType (detectPatterns (processData rawData) ! j) \<noteq> Some (Some SELL))"
proof -
  have a: "xs \<noteq> [] \<longrightarrow> detectPatterns xs ! 0 = xs ! 0"
    by (simp add: detectPatterns_0)
  have b: "rawData \<noteq> [] \<longrightarrow>
        isPinBar (detectPatterns (processData rawData) ! 0) = None
      \<and> isEngulfing (detectPatterns (processData rawData) ! 0) = None
      \<and> isRSFlip (detectPatterns (processData rawData) ! 0) = None
      \<and> signalType (detectPatterns (processData rawData) ! 0) = None"
  proof
    assume ne: "rawData \<noteq> []"
    then have "processData rawData \<noteq> []"
      using length_processData [of rawData] by auto
    then have "detectPatterns (processData rawData) ! 0 = processData rawData ! 0"
      by (rule detectPatterns_0)
    moreover from ne have "0 < length rawData" by simp
    ultimately show "isPinBar (detectPatterns (processData rawData) ! 0) = None
      \<and> isEngulfing (detectPatterns (processData rawData) ! 0) = None
      \<and> isRSFlip (detectPatterns (processData rawData) ! 0) = None
      \<and> signalType (detectPatterns (processData rawData) ! 0) = None"
      by (simp add: processData_unannotated)
  qed
  have sig: "signalType (detectPatterns ys ! k) =
          Some (if isRSFlip (detectPatterns ys ! k) = Some True
                   \<or> (isPinBar (detectPatterns ys ! k) = Some True
                        \<and> nearKeyLevel (keyLevelOf ys) (ys ! k))
                   \<or> (isEngulfing (detectPatterns ys ! k) = Some True
                        \<and> nearKeyLevel (keyLevelOf ys) (ys ! k))
                then Some BUY else None)"
    if "1 \<le> k" and "k < length ys" for ys k
  proof -
    from that have pos: "0 < k" by simp
    show ?thesis
      unfolding detectPatterns_nth [OF that(2)] by (rule detectAt_signalType [OF pos])
  qed
  have nosell: "signalType (detectPatterns ys ! k) \<noteq> Some (Some SELL)"
    if "1 \<le> k" and "k < length ys" for ys k
    by (subst sig [OF that]) simp
  have c: "1 \<le> i \<and> i < length xs \<longrightarrow>
        (\<exists>!v. signalType (detectPatterns xs ! i) = Some v)
      \<and> signalType (detectPatterns xs ! i) =
          Some (if isRSFlip (detectPatterns xs ! i) = Some True
                   \<or> (isPinBar (detectPatterns xs ! i) = Some True
                        \<and> nearKeyLevel (keyLevelOf xs) (xs ! i))
                   \<or> (isEngulfing (detectPatterns xs ! i) = Some True
                        \<and> nearKeyLevel (keyLevelOf xs) (xs ! i))
                then Some BUY else None)
      \<and> signalType (detectPatterns xs ! i) \<noteq> Some (Some SELL)"
    using sig [of i xs] nosell [of i xs] signal_unique [OF sig [of i xs]] by blast
  have d: "\<forall>j<length rawData.
        signalType (detectPatterns (processData rawData) ! j) \<noteq> Some (Some SELL)"
  proof (intro allI impI)
    fix j
    assume j: "j < length rawData"
    show "signalType (detectPatterns (processData rawData) ! j) \<noteq> Some (Some SELL)"
    proof (cases "j = 0")
      case True
      with j b show ?thesis by auto
    next
      case False
      with j show ?thesis
        by (intro nosell) (simp_all add: length_processData)
    qed
  qed
  from a b c d show ?thesis by blast
qed

lemma exRows_facts:
  "length exRows = 5" "exRows \<noteq> []" "exRows ! 4 = exRow ''2024-01-08'' 13 14.4 12.7 14 500"
  by (simp_all add: exRows_def)

lemma exRows_processed:
  "length (processData exRows) = 5"
  "low (processData exRows ! 4) = 12.7"
  by (simp_all add: length_processData processData_nth exRows_facts mkCandle_def exRow_def)

lemma keyLevelOf_short: "length xs \<le> 50 \<Longrightarrow> keyLevelOf xs = 0"
  by (simp add: keyLevelOf_def)

lemma isRSFlip_short:
  assumes "length xs \<le> 50" and "0 < i" and "i < length xs"
  shows "isRSFlip (detectPatterns xs ! i) = Some False"
  using assms
  by (simp add: detectPatterns_nth keyLevelOf_short detectAt_isRSFlip nearKeyLevel_zero)

lemma exSeries_flip: "isRSFlip (detectPatterns exSeries ! 51) = Some True"
proof -
  have "length exSeries = 52" by (simp add: exSeries_def)
  then show ?thesis
    by (simp add: detectPatterns_nth keyLevelOf_exSeries detectAt_isRSFlip exSeries_pin
        exSeries_nth exSeries_near)
qed

theorem signal_annotation_witness:
  "detectPatterns exSeries ! 0 = exBase
   \<and> isPinBar (detectPatterns (processData exRows) ! 0) = None
   \<and> signalType (detectPatterns (processData exRows) ! 0) = None
   \<and> signalType (detectPatterns exSeries ! 51) = Some (Some BUY)
   \<and> signalType (detectPatterns (processData exRows) ! 4) = Some None"
proof -
  have len: "length exSeries = 52" "exSeries \<noteq> []" "exSeries ! 0 = exBase"
    by (simp_all add: exSeries_def nth_append)
  have ne: "exRows \<noteq> []" by (rule exRows_facts)
  have k: "keyLevelOf (processData exRows) = 0"
    by (simp add: keyLevelOf_short exRows_processed)
  have f: "isRSFlip (detectPatterns (processData exRows) ! 4) = Some False"
    by (simp add: isRSFlip_short exRows_processed)
  show ?thesis
    using signal_annotation [of exSeries exRows 51]
      signal_annotation [of "processData exRows" exRows 4]
    by (simp add: len ne exSeries_flip exRows_processed k f nearKeyLevel_zero)
qed

text \<open>
  Claim C5. For a series of more than 50 candles the key level is the maximum high over
  the first 50 candles. For a series of at most 50 candles the key level is 0; the
  proximity test then fails at every index \<open>i \<ge> 1\<close>, the quotient being the value
  \<open>Infinity\<close> where the low is positive (no division failure), and no candle is flagged
  resistance-flip.
\<close>

theorem key_level:
  "(length xs > 50 \<longrightarrow> keyLevelOf xs = Max (set (map high (take 50 xs))))
   \<and> (length xs \<le> 50 \<longrightarrow>
        keyLevelOf xs = 0
      \<and> (\<forall>i. 1 \<le> i \<and> i < length xs \<longrightarrow>
            (0 < low (xs ! i) \<longrightarrow>
               jsDiv \<bar>low (xs ! i) - keyLevelOf xs\<bar> (keyLevelOf xs) = PosInf)
          \<and> \<not> nearKeyLevel (keyLevelOf xs) (xs ! i)
          \<and> isRSFlip (detectPatterns xs ! i) = Some False))
   \<and> (length rawData \<le> 50 \<longrightarrow>
        (\<forall>i<length rawData. isRSFlip (detectPatterns (processData rawData) ! i) \<noteq> Some True))"
proof -
  have a: "length xs > 50 \<longrightarrow> keyLevelOf xs = Max (set (map high (take 50 xs)))"
  proof
    assume l: "length xs > 50"
    then have "map high (take 50 xs) \<noteq> []" by auto
    then have "mathMax (map high (take 50 xs)) = Max (set (map high (take 50 xs)))"
      by (rule mathMax_Max)
    with l show "keyLevelOf xs = Max (set (map high (take 50 xs)))"
      by (simp add: keyLevelOf_def)
  qed
  have b: "length xs \<le> 50 \<longrightarrow>
        keyLevelOf xs = 0
      \<and> (\<forall>i. 1 \<le> i \<and> i < length xs \<longrightarrow>
            (0 < low (xs ! i) \<longrightarrow>
               jsDiv \<bar>low (xs ! i) - keyLevelOf xs\<bar> (keyLevelOf xs) = PosInf)
          \<and> \<not> nearKeyLevel (keyLevelOf xs) (xs ! i)
          \<and> isRSFlip (detectPatterns xs ! i) = Some False)"
  proof
    assume l: "length xs \<le> 50"
    then have k: "keyLevelOf xs = 0" by (rule keyLevelOf_short)
    have "(0 < low (xs ! i) \<longrightarrow> jsDiv \<bar>low (xs ! i) - 0\<bar> 0 = PosInf)
          \<and> \<not> nearKeyLevel 0 (xs ! i)
          \<and> isRSFlip (detectPatterns xs ! i) = Some False"
      if "1 \<le> i \<and> i < length xs" for i
      using that l by (simp add: jsDiv_def nearKeyLevel_zero isRSFlip_short)
    with k show "keyLevelOf xs = 0
      \<and> (\<forall>i. 1 \<le> i \<and> i < length xs \<longrightarrow>
            (0 < low (xs ! i) \<longrightarrow>
               jsDiv \<bar>low (xs ! i) - keyLevelOf xs\<bar> (keyLevelOf xs) = PosInf)
          \<and> \<not> nearKeyLevel (keyLevelOf xs) (xs ! i)
          \<and> isRSFlip (detectPatterns xs ! i) = Some False)"
      by simp
  qed
  have c: "length rawData \<le> 50 \<longrightarrow>
        (\<forall>i<length rawData. isRSFlip (detectPatterns (processData rawData) ! i) \<noteq> Some True)"
  proof (intro impI allI)
    fix i
    assume l: "length rawData \<le> 50" and i: "i < length rawData"
    show "isRSFlip (detectPatterns (processData rawData) ! i) \<noteq> Some True"
    proof (cases "i = 0")
      case True
      from i have "processData rawData \<noteq> []"
        using length_processData [of rawData] by auto
      then have "detectPatterns (processData rawData) ! 0 = processData rawData ! 0"
        by (rule detectPatterns_0)
      with True i show ?thesis
        by (simp add: processData_unannotated)
    next
      case False
      with l i have "isRSFlip (detectPatterns (processData rawData) ! i) = Some False"
        by (intro isRSFlip_short) (simp_all add: length_processData)
      then show ?thesis by simp
    qed
  qed
  from a b c show ?thesis by blast
qed

theorem key_level_witness:
  "keyLevelOf exSeries = 100
   \<and> keyLevelOf (processData exRows) = 0
   \<and> jsDiv \<bar>low (processData exRows ! 4) - keyLevelOf (processData exRows)\<bar>
        (keyLevelOf (processData exRows)) = PosInf
   \<and> isRSFlip (detectPatterns (processData exRows) ! 4) = Some False
   \<and> isRSFlip (detectPatterns (processData exRows) ! 0) \<noteq> Some True"
proof -
  have len: "length exSeries = 52" by (simp add: exSeries_def)
  have "take 50 exSeries = replicate 50 exBase"
    by (simp add: exSeries_def)
  then have m: "high ` set (take 50 exSeries) = {100}"
    by (simp add: exBase_def)
  have "keyLevelOf exSeries = 100"
    using key_level [of exSeries exRows] by (simp add: len m)
  moreover have "keyLevelOf (processData exRows) = 0
   \<and> jsDiv \<bar>low (processData exRows ! 4) - keyLevelOf (processData exRows)\<bar>
        (keyLevelOf (processData exRows)) = PosInf
   \<and> isRSFlip (detectPatterns (processData exRows) ! 4) = Some False
   \<and> isRSFlip (detectPatterns (processData exRows) ! 0) \<noteq> Some True"
  proof -
    have p: "length (processData exRows) \<le> 50" and q: "length exRows \<le> 50"
      by (simp_all add: exRows_processed exRows_facts)
    from key_level [of "processData exRows" exRows] p q
    have k: "keyLevelOf (processData exRows) = 0"
      and a: "1 \<le> i \<and> i < length (processData exRows) \<longrightarrow>
            (0 < low (processData exRows ! i) \<longrightarrow>
               jsDiv \<bar>low (processData exRows ! i) - keyLevelOf (processData exRows)\<bar>
                 (keyLevelOf (processData exRows)) = PosInf)
          \<and> \<not> nearKeyLevel (keyLevelOf (processData exRows)) (processData exRows ! i)
          \<and> isRSFlip (detectPatterns (processData exRows) ! i) = Some False"
      and z: "j < length exRows \<longrightarrow>
            isRSFlip (detectPatterns (processData exRows) ! j) \<noteq> Some True" for i j
      by blast+
    have l: "(0::real) < low (processData exRows ! 4)"
      by (simp add: exRows_processed)
    from a [of 4] l z [of 0] k show ?thesis
      by (simp add: exRows_processed(1) exRows_facts(1))
  qed
  ultimately show ?thesis by blast
qed

section \<open>SeriesBuilder: the candle of the day\<close>

lemma tickStep_max_min:
  "tickStep t (h, l, v) = (max h (deal_price t), min l (deal_price t), v + deal_trading_volume t)"
  by (simp add: tickStep_def Let_def max_def min_def)

lemma fold_tickStep:
  "fold tickStep ts (h, l, v) =
     (Max (insert h (deal_price ` set ts)), Min (insert l (deal_price ` set ts)),
      v + sum_list (map deal_trading_volume ts))"
proof (induction ts arbitrary: h l v)
  case Nil
  show ?case by simp
next
  case (Cons t ts)
  have fin: "finite (deal_price ` set ts)" by simp
  have mx: "Max (insert (max h (deal_price t)) (deal_price ` set ts)) =
            Max (insert h (insert (deal_price t) (deal_price ` set ts)))"
    using fin by (cases "deal_price ` set ts = {}") (simp_all add: max.assoc)
  have mn: "Min (insert (min l (deal_price t)) (deal_price ` set ts)) =
            Min (insert l (insert (deal_price t) (deal_price ` set ts)))"
    using fin by (cases "deal_price ` set ts = {}") (simp_all add: min.assoc)
  show ?case
    by (simp add: tickStep_max_min Cons.IH mx mn add.assoc)
qed

lemma tickCandle_fields:
  assumes "ticks \<noteq> []"
  shows "fm_open (tickCandle today c lastp ticks) = deal_price (hd ticks)"
    and "fm_close (tickCandle today c lastp ticks) = deal_price (last ticks)"
    and "fm_max (tickCandle today c lastp ticks) = Max (deal_price ` set ticks)"
    and "fm_min (tickCandle today c lastp ticks) = Min (deal_price ` set ticks)"
    and "Trading_Volume (tickCandle today c lastp ticks) = sum_list (map deal_trading_volume ticks)"
    and "fm_date (tickCandle today c lastp ticks) = today"
proof -
  from assms have h: "ticks ! 0 = hd ticks" and l: "ticks ! (length ticks - Suc 0) = last ticks"
    by (simp_all add: hd_conv_nth last_conv_nth)
  from assms have "deal_price (hd ticks) \<in> deal_price ` set ticks" by simp
  then have ins: "insert (deal_price (hd ticks)) (deal_price ` set ticks) = deal_price ` set ticks"
    by (rule insert_absorb)
  show "fm_open (tickCandle today c lastp ticks) = deal_price (hd ticks)"
    and "fm_close (tickCandle today c lastp ticks) = deal_price (last ticks)"
    and "fm_max (tickCandle today c lastp ticks) = Max (deal_price ` set ticks)"
    and "fm_min (tickCandle today c lastp ticks) = Min (deal_price ` set ticks)"
    and "Trading_Volume (tickCandle today c lastp ticks) = sum_list (map deal_trading_volume ticks)"
    and "fm_date (tickCandle today c lastp ticks) = today"
    by (simp_all add: tickCandle_def Let_def h l fold_tickStep ins)
qed

lemma realtimeSnapshot_cases:
  "snd (realtimeSnapshot provider todayStr stockCode rawData) = rawData \<or>
   (\<exists>ticks. ticks \<noteq> [] \<and> snd (realtimeSnapshot provider todayStr stockCode rawData) =
      rawData @ [tickCandle todayStr stockCode (rawData ! (length rawData - 1)) ticks])"
  by (auto simp add: realtimeSnapshot_def Let_def split: sum.splits option.splits)

text \<open>
  Claim C3. For a non-empty end-of-day series: if the date of the last candle is today,
  no tick request is issued and the series is returned as it is. Otherwise, for a
  non-empty tick list, exactly one candle is appended: its open is the first tick price,
  its close the last tick price, its high and low the maximum and minimum tick price, its
  volume the sum of the tick sizes. In every case the output has the length of the input
  or one more, and the input is a prefix of it.
\<close>

theorem realtime_snapshot:
  assumes "rawData \<noteq> []"
  shows "(fm_date (last rawData) = todayStr \<longrightarrow>
            realtimeSnapshot provider todayStr stockCode rawData = ([], rawData))
       \<and> (fm_date (last rawData) \<noteq> todayStr \<and>
            getTick provider stockCode todayStr = Inr (Some ticks) \<and> ticks \<noteq> [] \<longrightarrow>
            (\<exists>c. snd (realtimeSnapshot provider todayStr stockCode rawData) = rawData @ [c]
               \<and> fm_open c = deal_price (hd ticks)
               \<and> fm_close c = deal_price (last ticks)
               \<and> fm_max c = Max (deal_price ` set ticks)
               \<and> fm_min c = Min (deal_price ` set ticks)
               \<and> Trading_Volume c = sum_list (map deal_trading_volume ticks)))
       \<and> (length (snd (realtimeSnapshot provider todayStr stockCode rawData)) = length rawData
          \<or> length (snd (realtimeSnapshot provider todayStr stockCode rawData)) = length rawData + 1)
       \<and> take (length rawData) (snd (realtimeSnapshot provider todayStr stockCode rawData)) = rawData"
proof -
  from assms have lst: "rawData ! (length rawData - Suc 0) = last rawData"
    by (simp add: last_conv_nth)
  have a: "fm_date (last rawData) = todayStr \<longrightarrow>
            realtimeSnapshot provider todayStr stockCode rawData = ([], rawData)"
    by (simp add: realtimeSnapshot_def lst)
  have b: "fm_date (last rawData) \<noteq> todayStr \<and>
            getTick provider stockCode todayStr = Inr (Some ticks) \<and> ticks \<noteq> [] \<longrightarrow>
            (\<exists>c. snd (realtimeSnapshot provider todayStr stockCode rawData) = rawData @ [c]
               \<and> fm_open c = deal_price (hd ticks)
               \<and> fm_close c = deal_price (last ticks)
               \<and> fm_max c = Max (deal_price ` set ticks)
               \<and> fm_min c = Min (deal_price ` set ticks)
               \<and> Trading_Volume c = sum_list (map deal_trading_volume ticks))"
  proof
    assume h: "fm_date (last rawData) \<noteq> todayStr \<and>
            getTick provider stockCode todayStr = Inr (Some ticks) \<and> ticks \<noteq> []"
    then have "snd (realtimeSnapshot provider todayStr stockCode rawData) =
            rawData @ [tickCandle todayStr stockCode (last rawData) ticks]"
      by (simp add: realtimeSnapshot_def lst)
    with h tickCandle_fields [of ticks todayStr stockCode "last rawData"]
    show "\<exists>c. snd (realtimeSnapshot provider todayStr stockCode rawData) = rawData @ [c]
               \<and> fm_open c = deal_price (hd ticks)
               \<and> fm_close c = deal_price (last ticks)
               \<and> fm_max c = Max (deal_price ` set ticks)
               \<and> fm_min c = Min (deal_price ` set ticks)
               \<and> Trading_Volume c = sum_list (map deal_trading_volume ticks)"
      by blast
  qed
  have c: "(length (snd (realtimeSnapshot provider todayStr stockCode rawData)) = length rawData
          \<or> length (snd (realtimeSnapshot provider todayStr stockCode rawData)) = length rawData + 1)
       \<and> take (length rawData) (snd (realtimeSnapshot provider todayStr stockCode rawData)) = rawData"
    using realtimeSnapshot_cases [of provider todayStr stockCode rawData] by auto
  from a b c show ?thesis by blast
qed

lemma exTicks_facts:
  "exTicks \<noteq> []" "deal_price (hd exTicks) = 15" "deal_price (last exTicks) = 15.5"
  "Max (deal_price ` set exTicks) = 16" "Min (deal_price ` set exTicks) = 14.5"
  "sum_list (map deal_trading_volume exTicks) = 42"
  by (simp_all add: exTicks_def)

lemma exRows_last: "fm_date (last exRows) = ''2024-01-08''"
  by (simp add: exRows_def exRow_def)

theorem realtime_snapshot_witness:
  "realtimeSnapshot exProvider ''2024-01-08'' ''2330'' exRows = ([], exRows)
   \<and> length (snd (realtimeSnapshot exProvider ''2024-01-09'' ''2330'' exRows)) = 6
   \<and> take 5 (snd (realtimeSnapshot exProvider ''2024-01-09'' ''2330'' exRows)) = exRows
   \<and> fm_open (last (snd (realtimeSnapshot exProvider ''2024-01-09'' ''2330'' exRows))) = 15
   \<and> fm_close (last (snd (realtimeSnapshot exProvider ''2024-01-09'' ''2330'' exRows))) = 15.5
   \<and> fm_max (last (snd (realtimeSnapshot exProvider ''2024-01-09'' ''2330'' exRows))) = 16
   \<and> fm_min (last (snd (realtimeSnapshot exProvider ''2024-01-09'' ''2330'' exRows))) = 14.5
   \<and> Trading_Volume (last (snd (realtimeSnapshot exProvider ''2024-01-09'' ''2330'' exRows))) = 42"
proof -
  have t: "getTick exProvider ''2330'' ''2024-01-09'' = Inr (Some exTicks)"
    by (simp add: exProvider_def)
  have d: "fm_date (last exRows) \<noteq> ''2024-01-09''"
    by (simp add: exRows_last)
  have a: "realtimeSnapshot exProvider ''2024-01-08'' ''2330'' exRows = ([], exRows)"
    using realtime_snapshot [OF exRows_facts(2), where todayStr = "''2024-01-08''"
        and provider = exProvider and stockCode = "''2330''" and ticks = exTicks]
    by (simp add: exRows_last)
  from realtime_snapshot [OF exRows_facts(2), where todayStr = "''2024-01-09''"
        and provider = exProvider and stockCode = "''2330''" and ticks = exTicks]
    t d exTicks_facts(1)
  obtain c where c: "snd (realtimeSnapshot exProvider ''2024-01-09'' ''2330'' exRows) = exRows @ [c]"
    "fm_open c = deal_price (hd exTicks)" "fm_close c = deal_price (last exTicks)"
    "fm_max c = Max (deal_price ` set exTicks)" "fm_min c = Min (deal_price ` set exTicks)"
    "Trading_Volume c = sum_list (map deal_trading_volume exTicks)"
    by blast
  from a c show ?thesis
    by (simp add: exTicks_facts exRows_facts(1))
qed

section \<open>MomentumScorer: the moving-average flags\<close>

lemma buildStockData_fields:
  "data (buildStockData stock u1 u2 xs) = xs"
  "lastClose (buildStockData stock u1 u2 xs) = close (xs ! (length xs - 1))"
  "isAbove200MA (buildStockData stock u1 u2 xs) =
     aboveIfTruthy (ma200 (xs ! (length xs - 1))) (close (xs ! (length xs - 1)))"
  "isVolAbove5MA (buildStockData stock u1 u2 xs) =
     aboveIfTruthy (volMa5 (xs ! (length xs - 1))) (volume (xs ! (length xs - 1)))"
  by (simp_all add: buildStockData_def Let_def)

lemma aboveIfTruthy_exact:
  "aboveIfTruthy avg v \<longleftrightarrow> (\<exists>a. avg = Some a \<and> a \<noteq> 0 \<and> v > a)"
  by (cases avg) (simp_all add: aboveIfTruthy_def)

lemma calculateSMA_zero:
  assumes nonneg: "\<forall>x\<in>set xs. 0 \<le> x" and w: "0 < W" and z: "calculateSMA xs W = Some 0"
  shows "last xs = 0"
proof -
  from z have len: "W \<le> length xs"
    by (simp add: calculateSMA_def split: if_splits)
  with z w have s: "sum_list (drop (length xs - W) xs) = 0"
    by (simp add: calculateSMA_def Let_def foldl_plus_sum_list)
  have "\<forall>x\<in>set (drop (length xs - W) xs). 0 \<le> x"
    using nonneg by (meson in_set_dropD)
  with s have all0: "\<forall>x\<in>set (drop (length xs - W) xs). x = 0"
    by (simp add: sum_list_nonneg_eq_0_iff)
  from len w have d: "length xs - W < length xs" by simp
  then have "drop (length xs - W) xs \<noteq> []" by simp
  then have "last (drop (length xs - W) xs) \<in> set (drop (length xs - W) xs)"
    by (rule last_in_set)
  with d have "last xs \<in> set (drop (length xs - W) xs)"
    by (simp add: last_drop)
  with all0 show ?thesis by simp
qed

lemma above_average_iff:
  assumes "\<forall>x\<in>set xs. 0 \<le> x" and "0 < W"
  shows "aboveIfTruthy (calculateSMA xs W) (last xs) \<longleftrightarrow>
           (\<exists>m. calculateSMA xs W = Some m \<and> last xs > m)"
  using calculateSMA_zero [OF assms] by (auto simp add: aboveIfTruthy_exact)

lemma last_analysed:
  assumes "rawData \<noteq> []"
  shows "detectPatterns (processData rawData) !
           (length (detectPatterns (processData rawData)) - 1) =
         last (detectPatterns (processData rawData))"
    and "ma200 (last (detectPatterns (processData rawData))) =
           calculateSMA (map fm_close rawData) 200"
    and "volMa5 (last (detectPatterns (processData rawData))) =
           calculateSMA (map Trading_Volume rawData) 5"
    and "close (last (detectPatterns (processData rawData))) = last (map fm_close rawData)"
    and "volume (last (detectPatterns (processData rawData))) =
           last (map Trading_Volume rawData)"
proof -
  let ?n = "length rawData"
  let ?A = "detectPatterns (processData rawData)"
  from assms have n: "?n - 1 < ?n" and s: "Suc (?n - 1) = ?n" by simp_all
  have l: "length ?A = ?n"
    by (simp add: length_detectPatterns length_processData)
  with assms have ne: "?A \<noteq> []" by auto
  then show "?A ! (length ?A - 1) = last ?A"
    by (simp add: last_conv_nth)
  from ne have la: "last ?A = ?A ! (?n - 1)"
    by (simp add: last_conv_nth l)
  have d: "?A ! (?n - 1) =
           detectAt (keyLevelOf (processData rawData)) (processData rawData) (?n - 1)"
    using n by (simp add: detectPatterns_nth length_processData)
  have p: "processData rawData ! (?n - 1) =
           mkCandle (rawData ! (?n - 1)) (map fm_close rawData) (map Trading_Volume rawData)"
    using processData_nth [OF n] by (simp only: s take_all length_map order_refl)
  show "ma200 (last ?A) = calculateSMA (map fm_close rawData) 200"
    and "volMa5 (last ?A) = calculateSMA (map Trading_Volume rawData) 5"
    unfolding la d detectAt_unchanged p by (simp_all add: mkCandle_def)
  show "close (last ?A) = last (map fm_close rawData)"
    and "volume (last ?A) = last (map Trading_Volume rawData)"
    unfolding la d detectAt_unchanged p
    using assms by (simp_all add: mkCandle_def last_map last_conv_nth)
qed

text \<open>
  Claim C8. For a non-empty series of candles (closes and volumes are non-negative, as
  the data model has them), the snapshot's \<open>isAbove200MA\<close> is true exactly when the
  200-period average of the last candle is defined and the last close exceeds it, and it
  is false when that average is undefined; \<open>isVolAbove5MA\<close> is true exactly when the
  5-period volume average of the last candle is defined and the last volume exceeds it.
  The source tests the average for truthiness, so an average of exactly 0 counts as
  undefined (\<open>aboveIfTruthy_exact\<close>); with non-negative data the last value is then 0
  as well and the flag is false either way.
\<close>

theorem moving_average_flags:
  assumes "rawData \<noteq> []"
    and "\<forall>d\<in>set rawData. 0 \<le> fm_close d \<and> 0 \<le> Trading_Volume d"
  shows "data (buildStockData stock u1 u2 (detectPatterns (processData rawData))) =
           detectPatterns (processData rawData)
       \<and> lastClose (buildStockData stock u1 u2 (detectPatterns (processData rawData))) =
           close (last (detectPatterns (processData rawData)))
       \<and> (isAbove200MA (buildStockData stock u1 u2 (detectPatterns (processData rawData))) \<longleftrightarrow>
           (\<exists>m. ma200 (last (detectPatterns (processData rawData))) = Some m \<and>
                close (last (detectPatterns (processData rawData))) > m))
       \<and> (ma200 (last (detectPatterns (processData rawData))) = None \<longrightarrow>
           isAbove200MA (buildStockData stock u1 u2 (detectPatterns (processData rawData))) = False)
       \<and> (isVolAbove5MA (buildStockData stock u1 u2 (detectPatterns (processData rawData))) \<longleftrightarrow>
           (\<exists>m. volMa5 (last (detectPatterns (processData rawData))) = Some m \<and>
                volume (last (detectPatterns (processData rawData))) > m))"
proof -
  note la = last_analysed [OF assms(1)]
  have c: "\<forall>x\<in>set (map fm_close rawData). 0 \<le> x"
    and v: "\<forall>x\<in>set (map Trading_Volume rawData). 0 \<le> x"
    using assms(2) by simp_all
  have a200: "aboveIfTruthy (calculateSMA (map fm_close rawData) 200) (last (map fm_close rawData))
      \<longleftrightarrow> (\<exists>m. calculateSMA (map fm_close rawData) 200 = Some m \<and> last (map fm_close rawData) > m)"
    by (rule above_average_iff [OF c]) simp
  have a5: "aboveIfTruthy (calculateSMA (map Trading_Volume rawData) 5)
        (last (map Trading_Volume rawData))
      \<longleftrightarrow> (\<exists>m. calculateSMA (map Trading_Volume rawData) 5 = Some m \<and>
                last (map Trading_Volume rawData) > m)"
    by (rule above_average_iff [OF v]) simp
  show ?thesis
    unfolding buildStockData_fields la a200 a5 by auto
qed

lemma exLongRows_facts:
  "exLongRows \<noteq> []"
  "\<forall>d\<in>set exLongRows. 0 \<le> fm_close d \<and> 0 \<le> Trading_Volume d"
  "calculateSMA (map fm_close exLongRows) 200 = Some 10.005"
  "last (map fm_close exLongRows) = 11"
  by (simp_all add: exLongRows_def exRow_def calculateSMA_def foldl_plus_sum_list
      sum_list_replicate)

lemma exRows_averages:
  "\<forall>d\<in>set exRows. 0 \<le> fm_close d \<and> 0 \<le> Trading_Volume d"
  "calculateSMA (map fm_close exRows) 200 = None"
  "calculateSMA (map Trading_Volume exRows) 5 = Some 300"
  "last (map Trading_Volume exRows) = 500"
  by (simp_all add: exRows_def exRow_def calculateSMA_def)

theorem moving_average_flags_witness:
  "isAbove200MA (buildStockData (hd TARGET_STOCKS) 0.7 0.9
      (detectPatterns (processData exLongRows)))
   \<and> \<not> isAbove200MA (buildStockData (hd TARGET_STOCKS) 0.7 0.9
        (detectPatterns (processData exRows)))
   \<and> isVolAbove5MA (buildStockData (hd TARGET_STOCKS) 0.7 0.9
        (detectPatterns (processData exRows)))"
proof -
  note long = last_analysed [OF exLongRows_facts(1)]
  note short = last_analysed [OF exRows_facts(2)]
  have "ma200 (last (detectPatterns (processData exLongRows))) = Some 10.005"
    and "close (last (detectPatterns (processData exLongRows))) = 11"
    by (simp_all add: long exLongRows_facts)
  then have "\<exists>m. ma200 (last (detectPatterns (processData exLongRows))) = Some m \<and>
                close (last (detectPatterns (processData exLongRows))) > m"
    by (intro exI [of _ "10.005"]) simp
  with moving_average_flags [OF exLongRows_facts(1,2), of "hd TARGET_STOCKS" "0.7" "0.9"]
  have 1: "isAbove200MA (buildStockData (hd TARGET_STOCKS) 0.7 0.9
      (detectPatterns (processData exLongRows)))"
    by blast
  have "ma200 (last (detectPatterns (processData exRows))) = None"
    by (simp add: short exRows_averages)
  with moving_average_flags [OF exRows_facts(2) exRows_averages(1), of "hd TARGET_STOCKS" "0.7" "0.9"]
  have 2: "\<not> isAbove200MA (buildStockData (hd TARGET_STOCKS) 0.7 0.9
        (detectPatterns (processData exRows)))"
    by blast
  have "volMa5 (last (detectPatterns (processData exRows))) = Some 300"
    and "volume (last (detectPatterns (processData exRows))) = 500"
    by (simp_all add: short exRows_averages)
  then have "\<exists>m. volMa5 (last (detectPatterns (processData exRows))) = Some m \<and>
                volume (last (detectPatterns (processData exRows))) > m"
    by (intro exI [of _ 300]) simp
  with moving_average_flags [OF exRows_facts(2) exRows_averages(1), of "hd TARGET_STOCKS" "0.7" "0.9"]
  have 3: "isVolAbove5MA (buildStockData (hd TARGET_STOCKS) 0.7 0.9
        (detectPatterns (processData exRows)))"
    by blast
  from 1 2 3 show ?thesis by (intro conjI)
qed

section \<open>The batch: failures are dropped\<close>

lemma fetchStock_result:
  "snd (fetchStock provider rnd startDateStr todayStr stock) =
     Inr (if fetchSucceeded provider startDateStr stock
          then Some (snapshotOf provider rnd startDateStr todayStr stock) else None)"
  by (simp add: fetchStock_def tryFetchStock_def fetchSucceeded_def snapshotOf_def
      split: sum.splits prod.splits)

lemma promiseAll_resolved: "promiseAll (map (\<lambda>x. Inr (f x)) xs) = Inr (map f xs)"
  by (induction xs) simp_all

lemma drop_null:
  "map the (filter (\<lambda>item. item \<noteq> None) (map (\<lambda>x. if p x then Some (g x) else None) xs)) =
     map g (filter p xs)"
  by (induction xs) simp_all

lemma code_buildStockData: "code (buildStockData stock u1 u2 xs) = code stock"
  by (simp add: buildStockData_def Let_def)

lemma code_snapshotOf: "code (snapshotOf provider rnd startDateStr todayStr stock) = code stock"
  by (simp add: snapshotOf_def analyseRows_def Let_def code_buildStockData split: prod.splits)

text \<open>
  Claim C9. Whatever the provider returns or throws for each stock, the batch call
  returns (it never rejects), and its result is exactly the snapshots of the stocks whose
  fetch succeeded, in the order of \<open>TARGET_STOCKS\<close>: a stock whose price request throws,
  or returns no rows, contributes nothing.
\<close>

theorem batch_resilience:
  "fetchMarketData provider rnd startDateStr todayStr =
     Inr (map (snapshotOf provider rnd startDateStr todayStr)
            (filter (fetchSucceeded provider startDateStr) TARGET_STOCKS))
   \<and> (\<forall>e. fetchMarketData provider rnd startDateStr todayStr \<noteq> Inl e)
   \<and> map code (projr (fetchMarketData provider rnd startDateStr todayStr)) =
       map code (filter (fetchSucceeded provider startDateStr) TARGET_STOCKS)"
proof -
  have "map (\<lambda>stock. snd (fetchStock provider rnd startDateStr todayStr stock)) TARGET_STOCKS =
        map (\<lambda>stock. Inr (if fetchSucceeded provider startDateStr stock
               then Some (snapshotOf provider rnd startDateStr todayStr stock) else None))
            TARGET_STOCKS"
    by (simp add: fetchStock_result)
  then have r: "fetchMarketData provider rnd startDateStr todayStr =
     Inr (map (snapshotOf provider rnd startDateStr todayStr)
            (filter (fetchSucceeded provider startDateStr) TARGET_STOCKS))"
    unfolding fetchMarketData_def Let_def
    by (simp only: promiseAll_resolved sum.case drop_null)
  have "map code (map (snapshotOf provider rnd startDateStr todayStr)
            (filter (fetchSucceeded provider startDateStr) TARGET_STOCKS)) =
       map code (filter (fetchSucceeded provider startDateStr) TARGET_STOCKS)"
    by (simp add: code_snapshotOf)
  with r show ?thesis by simp
qed

lemma exProvider_succeeded:
  "map code (filter (fetchSucceeded exProvider ''2023-03-15'') TARGET_STOCKS) =
     [''2330'', ''2603'', ''3231'', ''3661'', ''3035'']"
  by (simp add: TARGET_STOCKS_def fetchSucceeded_def exProvider_def exRows_facts(2))

theorem batch_resilience_witness:
  "map code (projr (fetchMarketData exProvider exRnd ''2023-03-15'' ''2024-01-09'')) =
     [''2330'', ''2603'', ''3231'', ''3661'', ''3035'']
   \<and> fetchMarketData exProvider exRnd ''2023-03-15'' ''2024-01-09'' \<noteq> Inl FetchError
   \<and> getPrice exProvider ''2317'' ''2023-03-15'' = Inl FetchError
   \<and> getPrice exProvider ''2454'' ''2023-03-15'' = Inr \<lparr> resp_msg = ''success'', resp_data = [] \<rparr>"
proof -
  note b = batch_resilience [of exProvider exRnd "''2023-03-15''" "''2024-01-09''"]
  have 1: "map code (projr (fetchMarketData exProvider exRnd ''2023-03-15'' ''2024-01-09'')) =
     [''2330'', ''2603'', ''3231'', ''3661'', ''3035'']"
  proof -
    from b
    have "map code (projr (fetchMarketData exProvider exRnd ''2023-03-15'' ''2024-01-09'')) =
       map code (filter (fetchSucceeded exProvider ''2023-03-15'') TARGET_STOCKS)"
      by blast
    then show ?thesis by (simp only: exProvider_succeeded)
  qed
  have 2: "fetchMarketData exProvider exRnd ''2023-03-15'' ''2024-01-09'' \<noteq> Inl FetchError"
    using b by blast
  have 3: "getPrice exProvider ''2317'' ''2023-03-15'' = Inl FetchError"
    and 4: "getPrice exProvider ''2454'' ''2023-03-15'' =
              Inr \<lparr> resp_msg = ''success'', resp_data = [] \<rparr>"
    by (simp_all add: exProvider_def)
  from 1 2 3 4 show ?thesis by (intro conjI)
qed

section \<open>ScreeningFilter: the strict filter\<close>

text \<open>
  Claim C7, as the program computes it. The strict screening filter keeps a snapshot
  exactly when all five clauses hold: isAbove200MA, isVolAbove5MA, ADR_Percent > 3.5,
  RS_Score > 80, and lastClose \<ge> yearHigh * 0.85 where the product is the double product
  of yearHigh and the double nearest to 0.85. Making any single clause false in a
  snapshot that passes excludes it.
\<close>

theorem strict_filter_conjunction:
  "filteredStocks True stocks =
     filter (\<lambda>s. isAbove200MA s \<and> isVolAbove5MA s \<and> ADR_Percent s > 3.5 \<and> RS_Score s > 80 \<and>
                 lastClose s \<ge> fl (yearHigh s * fl 0.85)) stocks
   \<and> (s \<in> set (filteredStocks True stocks) \<longleftrightarrow>
        s \<in> set stocks \<and> isAbove200MA s \<and> isVolAbove5MA s \<and> ADR_Percent s > 3.5 \<and>
        RS_Score s > 80 \<and> lastClose s \<ge> fl (yearHigh s * fl 0.85))
   \<and> (s \<in> set (filteredStocks True stocks) \<longrightarrow>
        s \<lparr> isAbove200MA := False \<rparr> \<notin> set (filteredStocks True stocks')
      \<and> s \<lparr> isVolAbove5MA := False \<rparr> \<notin> set (filteredStocks True stocks')
      \<and> (a \<le> 3.5 \<longrightarrow> s \<lparr> ADR_Percent := a \<rparr> \<notin> set (filteredStocks True stocks'))
      \<and> (r \<le> 80 \<longrightarrow> s \<lparr> RS_Score := r \<rparr> \<notin> set (filteredStocks True stocks'))
      \<and> (c < fl (yearHigh s * fl 0.85) \<longrightarrow>
            s \<lparr> lastClose := c \<rparr> \<notin> set (filteredStocks True stocks')))"
proof -
  have m: "\<And>t ts. t \<in> set (filteredStocks True ts) \<longleftrightarrow> t \<in> set ts \<and> strictFilter t"
    by (simp add: filteredStocks_def)
  have t: "\<not> strictFilter (s \<lparr> isAbove200MA := False \<rparr>)"
    "\<not> strictFilter (s \<lparr> isVolAbove5MA := False \<rparr>)"
    "a \<le> 3.5 \<Longrightarrow> \<not> strictFilter (s \<lparr> ADR_Percent := a \<rparr>)"
    "r \<le> 80 \<Longrightarrow> \<not> strictFilter (s \<lparr> RS_Score := r \<rparr>)"
    "c < fl (yearHigh s * fl 0.85) \<Longrightarrow> \<not> strictFilter (s \<lparr> lastClose := c \<rparr>)"
    by (simp_all add: strictFilter_def)
  have 1: "filteredStocks True stocks =
     filter (\<lambda>s. isAbove200MA s \<and> isVolAbove5MA s \<and> ADR_Percent s > 3.5 \<and> RS_Score s > 80 \<and>
                 lastClose s \<ge> fl (yearHigh s * fl 0.85)) stocks"
    unfolding filteredStocks_def strictFilter_def by simp
  have 2: "s \<in> set (filteredStocks True stocks) \<longleftrightarrow>
        s \<in> set stocks \<and> isAbove200MA s \<and> isVolAbove5MA s \<and> ADR_Percent s > 3.5 \<and>
        RS_Score s > 80 \<and> lastClose s \<ge> fl (yearHigh s * fl 0.85)"
    unfolding m strictFilter_def by simp
  from 1 2 t show ?thesis
    unfolding m by blast
qed

lemma line_values:
  "fl (100 * fl 0.85) = 85"
  "fl 84.9 < 85"
  "fl (12 * fl 0.85) = fl 10.2"
  "fl 10.2 < 0.85 * 12"
  "fl 10.03 < fl (fl 11.8 * fl 0.85)"
  by (simp_all add: fl_eval)

theorem strict_filter_conjunction_witness:
  "filteredStocks True
     [exStock, exStock \<lparr> isAbove200MA := False \<rparr>, exStock \<lparr> isVolAbove5MA := False \<rparr>,
      exStock \<lparr> ADR_Percent := 3.5 \<rparr>, exStock \<lparr> RS_Score := 80 \<rparr>,
      exStock \<lparr> lastClose := fl 84.9 \<rparr>, exStock \<lparr> lastClose := 85 \<rparr>]
   = [exStock, exStock \<lparr> lastClose := 85 \<rparr>]"
  using strict_filter_conjunction [of
     "[exStock, exStock \<lparr> isAbove200MA := False \<rparr>, exStock \<lparr> isVolAbove5MA := False \<rparr>,
      exStock \<lparr> ADR_Percent := 3.5 \<rparr>, exStock \<lparr> RS_Score := 80 \<rparr>,
      exStock \<lparr> lastClose := fl 84.9 \<rparr>, exStock \<lparr> lastClose := 85 \<rparr>]" exStock "[]" 0 0 0]
    line_values(1,2)
  by (simp add: exStock_def)

text \<open>
  With the exact product \<open>0.85 * yearHigh\<close> the fifth clause does not describe the
  filter. For a year high of 12 and a last close of 10.2 the double product is the double
  of 10.2, so the snapshot is kept, while that double is below \<open>0.85 * 12\<close>. For a year
  high of 11.8 and a last close of 10.03 the double product is above the double of 10.03,
  so the snapshot is dropped, while \<open>10.03 \<ge> 0.85 * 11.8\<close> as decimals.
\<close>

theorem strict_filter_conjunction_counterexample:
  "filteredStocks True [exOnLine] = [exOnLine]
   \<and> \<not> (lastClose exOnLine \<ge> 0.85 * yearHigh exOnLine)
   \<and> filteredStocks True [exOffLine] = []
   \<and> isAbove200MA exOffLine \<and> isVolAbove5MA exOffLine
   \<and> ADR_Percent exOffLine > 3.5 \<and> RS_Score exOffLine > 80
   \<and> lastClose exOffLine = fl 10.03 \<and> yearHigh exOffLine = fl 11.8
   \<and> (10.03::real) \<ge> 0.85 * 11.8"
  using line_values(3,4,5)
  by (simp add: filteredStocks_def strictFilter_def exOnLine_def exOffLine_def exStock_def)

section \<open>RiskSizer: the position plan\<close>







end
